theory Spec2Isabelle
  imports Main
begin

section \<open>Data model (types.ts)\<close>

text \<open>
  The three catalog categories of \<^verbatim>\<open>type ModelType = "all" | "premium" | "subscription"\<close>.
\<close>

datatype ModelType = All | Premium | Subscription

datatype ModelFeature = tools | json_mode | structured_outputs | web_search | reasoning

datatype SamplingParameter =
  temperature | top_p | top_k | repetition_penalty | frequency_penalty
  | presence_penalty | stop | seed

text \<open>
  JavaScript numbers are read as mathematical integers here; every number the
  modelled code computes with (attempt counters, delays, list lengths) is a small
  non-negative integer. An optional or nullable field is an \<open>option\<close>.
\<close>

record Pricing =
  prompt :: "int option"
  completion :: "int option"
  image :: "int option"
  request :: "int option"

text \<open>
  One entry of the validated response (\<^verbatim>\<open>NanoGPTModelDetailsSchema\<close>). The fields
  \<^verbatim>\<open>id\<close> and \<^verbatim>\<open>name\<close> are required strings, which the schema lets be empty.
\<close>

record NanoGPTModelDetails =
  id_m :: string
  name_m :: string
  description_m :: "string option"
  object_m :: string
  created :: "int option"
  owned_by :: "string option"
  vision :: "bool option"
  context_length :: "int option"
  max_output_length :: "int option"
  pricing :: "Pricing option"
  supported_features :: "ModelFeature list option"
  supported_sampling_parameters :: "SamplingParameter list option"

record CategorizedModel = NanoGPTModelDetails +
  endpoint :: string
  category :: ModelType

record EndpointConfig =
  url :: string
  category_e :: ModelType
  displayName :: string
  description_e :: string

record RetryConfig =
  maxAttempts :: nat
  delayMs :: nat
  backoffMultiplier :: nat

record FetchResult =
  models :: "CategorizedModel list"
  endpoint_r :: string

section \<open>Errors, the host and the network\<close>

text \<open>
  Every error of the source is a plain \<^verbatim>\<open>Error(message)\<close>; one constructor stands
  for each place where one arises, with the values its message is built from:
  a rejected \<^verbatim>\<open>fetch\<close>, a response that is not \<^verbatim>\<open>ok\<close> (status, status text, body
  text), a body that is not JSON, a body the schema rejects, an empty \<^verbatim>\<open>data\<close>
  array, the error of \<^verbatim>\<open>fetchModels\<close> when every endpoint failed (display name of
  the primary endpoint, message), and the \<^verbatim>\<open>undefined\<close> that \<^verbatim>\<open>throw lastError!\<close>
  throws when the retry loop never ran.
\<close>

datatype js_error =
  NetworkError string
  | HttpStatusError nat string string
  | JsonError string
  | ValidationError string
  | EmptyCatalogError
  | AllEndpointsFailed string string
  | ThrownUndefined

text \<open>Decimal rendering of a number inside a template string.\<close>

definition digit_char :: "nat \<Rightarrow> char" where
  "digit_char n = ''0123456789'' ! n"

fun show_nat :: "nat \<Rightarrow> string" where
  "show_nat n = (if n < 10 then [digit_char n] else show_nat (n div 10) @ [digit_char (n mod 10)])"

declare show_nat.simps [simp del]

fun errorMessage :: "js_error \<Rightarrow> string" where
  "errorMessage (NetworkError msg) = msg"
| "errorMessage (HttpStatusError status statusText errorText) =
     ''HTTP '' @ show_nat status @ '': '' @ statusText @ '' - '' @ errorText"
| "errorMessage (JsonError msg) = msg"
| "errorMessage (ValidationError msg) = ''API response validation failed: '' @ msg"
| "errorMessage EmptyCatalogError = ''No models data found in API response''"
| "errorMessage (AllEndpointsFailed primary msg) =
     ''All NanoGPT endpoints failed. Primary: '' @ primary @ ''. Last error: '' @ msg"
| "errorMessage ThrownUndefined = ''Unknown error''"

text \<open>
  What one request meets. \<^verbatim>\<open>response.json()\<close> followed by the schema's \<^verbatim>\<open>parse\<close>
  is library code: a body is given by what the two yield.
\<close>

datatype body =
  NotJson string
  | SchemaMismatch string
  | Parsed "NanoGPTModelDetails list"

datatype response =
  FetchRejected string
  | HttpResponse nat string string body

fun response_ok :: "nat \<Rightarrow> bool" where
  "response_ok status = (200 \<le> status \<and> status \<le> 299)"

record request =
  request_url :: string
  authorization :: string
  userAgent :: string

text \<open>
  The observable effects, in the order they happen: a network request, a timer
  (\<^verbatim>\<open>setTimeout\<close> with its delay), the host's information and error messages, and
  the input box.
\<close>

datatype event =
  Fetch request
  | Timeout nat
  | InformationMessage string
  | ErrorMessage string
  | InputBox

fun is_message :: "event \<Rightarrow> bool" where
  "is_message (InformationMessage m) = True"
| "is_message (ErrorMessage m) = True"
| "is_message e = False"

text \<open>
  The world the service runs in: the secret storage, the setting
  \<^verbatim>\<open>nanogpt.modelTypes\<close>, what the user types into the input box (\<open>None\<close> when it
  is dismissed), the network (the answer to a request, given how many requests
  were issued before it), and the trace of effects so far.
\<close>

record world =
  secrets :: "string \<rightharpoonup> string"
  modelTypes :: "ModelType option"
  userInput :: "string option"
  network :: "nat \<Rightarrow> request \<Rightarrow> response"
  trace :: "event list"

definition emit :: "event \<Rightarrow> world \<Rightarrow> world" where
  "emit e w = w\<lparr>trace := trace w @ [e]\<rparr>"

definition requests :: "world \<Rightarrow> request list" where
  "requests w = [r. Fetch r \<leftarrow> trace w]"

definition delays :: "world \<Rightarrow> nat list" where
  "delays w = [d. Timeout d \<leftarrow> trace w]"

definition messages :: "world \<Rightarrow> event list" where
  "messages w = filter is_message (trace w)"

section \<open>nanogptModels.ts\<close>

definition BASE_URL :: string where
  "BASE_URL = ''https://nano-gpt.com/api/v1''"

definition DEFAULT_CONTEXT_LENGTH :: int where
  "DEFAULT_CONTEXT_LENGTH = 128000"

definition DEFAULT_MAX_OUTPUT_TOKENS :: int where
  "DEFAULT_MAX_OUTPUT_TOKENS = 16000"

definition RETRY_CONFIG :: RetryConfig where
  "RETRY_CONFIG = \<lparr>maxAttempts = 3, delayMs = 1000, backoffMultiplier = 2\<rparr>"

fun MODEL_ENDPOINTS :: "ModelType \<Rightarrow> string" where
  "MODEL_ENDPOINTS All = ''/models?detailed=true''"
| "MODEL_ENDPOINTS Premium = ''https://nano-gpt.com/api/paid/v1/models?detailed=true''"
| "MODEL_ENDPOINTS Subscription = ''https://nano-gpt.com/api/subscription/v1/models?detailed=true''"

fun ENDPOINT_CONFIGS :: "ModelType \<Rightarrow> EndpointConfig" where
  "ENDPOINT_CONFIGS All =
     \<lparr>url = BASE_URL @ MODEL_ENDPOINTS All, category_e = All,
      displayName = ''All Models'',
      description_e = ''Access to all available NanoGPT models''\<rparr>"
| "ENDPOINT_CONFIGS Premium =
     \<lparr>url = MODEL_ENDPOINTS Premium, category_e = Premium,
      displayName = ''Premium Models'',
      description_e = ''Access to premium NanoGPT models''\<rparr>"
| "ENDPOINT_CONFIGS Subscription =
     \<lparr>url = MODEL_ENDPOINTS Subscription, category_e = Subscription,
      displayName = ''Subscription Models'',
      description_e = ''Access to subscription-based NanoGPT models''\<rparr>"

subsection \<open>retryWithBackoff\<close>

text \<open>
  An operation is a world transformer that returns a value or throws. The loop
  \<^verbatim>\<open>for (attempt = 1; attempt <= config.maxAttempts; attempt++)\<close> returns at the
  first success; a failure at the last attempt breaks out and is thrown; any other
  failure is followed by a timer of \<^verbatim>\<open>delayMs * Math.pow(backoffMultiplier, attempt - 1)\<close>.
  The catch clause looks at nothing but the attempt counter.
\<close>

type_synonym 'a operation = "world \<Rightarrow> (js_error + 'a) \<times> world"

definition backoffDelay :: "RetryConfig \<Rightarrow> nat \<Rightarrow> nat" where
  "backoffDelay config attempt = delayMs config * backoffMultiplier config ^ (attempt - 1)"

function retryLoop ::
  "'a operation \<Rightarrow> RetryConfig \<Rightarrow> nat \<Rightarrow> js_error option \<Rightarrow> world \<Rightarrow> (js_error + 'a) \<times> world"
where
  "retryLoop operation config attempt lastError w =
     (if attempt \<le> maxAttempts config then
        (case operation w of
           (Inr v, w') \<Rightarrow> (Inr v, w')
         | (Inl error, w') \<Rightarrow>
             if attempt = maxAttempts config then (Inl error, w')
             else retryLoop operation config (attempt + 1) (Some error)
                    (emit (Timeout (backoffDelay config attempt)) w'))
      else (case lastError of None \<Rightarrow> (Inl ThrownUndefined, w) | Some error \<Rightarrow> (Inl error, w)))"
  by pat_completeness auto
termination
  by (relation "measure (\<lambda>(operation, config, attempt, lastError, w). maxAttempts config + 1 - attempt)") auto

declare retryLoop.simps [simp del]

definition retryWithBackoff :: "'a operation \<Rightarrow> RetryConfig \<Rightarrow> 'a operation" where
  "retryWithBackoff operation config w = retryLoop operation config 1 None w"

subsection \<open>getCurrentModelType, fetchModelsFromEndpoint\<close>

text \<open>\<^verbatim>\<open>config.get<ModelType>("modelTypes") || "all"\<close>.\<close>

definition getCurrentModelType :: "world \<Rightarrow> ModelType" where
  "getCurrentModelType w = (case modelTypes w of None \<Rightarrow> All | Some t \<Rightarrow> t)"

definition categorize :: "EndpointConfig \<Rightarrow> NanoGPTModelDetails \<Rightarrow> CategorizedModel" where
  "categorize ep m = NanoGPTModelDetails.extend m
     (CategorizedModel.fields (url ep) (category_e ep))"

text \<open>
  The operation handed to the retry wrapper: one request, then the checks of its
  answer in the order of the source (a rejected \<^verbatim>\<open>fetch\<close>, \<^verbatim>\<open>response.ok\<close>,
  \<^verbatim>\<open>json()\<close>, the schema, the empty \<^verbatim>\<open>data\<close> array), each failing by a throw.
\<close>

definition checkResponse :: "EndpointConfig \<Rightarrow> response \<Rightarrow> js_error + FetchResult" where
  "checkResponse ep resp =
     (case resp of
        FetchRejected msg \<Rightarrow> Inl (NetworkError msg)
      | HttpResponse status statusText errorText rawData \<Rightarrow>
          if \<not> response_ok status then Inl (HttpStatusError status statusText errorText)
          else (case rawData of
                  NotJson msg \<Rightarrow> Inl (JsonError msg)
                | SchemaMismatch msg \<Rightarrow> Inl (ValidationError msg)
                | Parsed data \<Rightarrow>
                    if data = [] then Inl EmptyCatalogError
                    else Inr \<lparr>models = map (categorize ep) data, endpoint_r = url ep\<rparr>))"

definition endpointRequest :: "string \<Rightarrow> EndpointConfig \<Rightarrow> string \<Rightarrow> request" where
  "endpointRequest apiKey ep ua =
     \<lparr>request_url = url ep, authorization = ''Bearer '' @ apiKey, userAgent = ua\<rparr>"

definition fetchOperation :: "string \<Rightarrow> EndpointConfig \<Rightarrow> string \<Rightarrow> FetchResult operation" where
  "fetchOperation apiKey ep ua w =
     (let req = endpointRequest apiKey ep ua;
          resp = network w (length (requests w)) req
      in (checkResponse ep resp, emit (Fetch req) w))"

definition fetchModelsFromEndpoint ::
  "string \<Rightarrow> EndpointConfig \<Rightarrow> string \<Rightarrow> FetchResult operation" where
  "fetchModelsFromEndpoint apiKey ep ua w =
     retryWithBackoff (fetchOperation apiKey ep ua) RETRY_CONFIG w"

subsection \<open>ensureApiKey\<close>

text \<open>
  \<^verbatim>\<open>String.prototype.trim\<close> on ASCII text: white space is removed at both ends.
\<close>

definition is_space :: "char \<Rightarrow> bool" where
  "is_space c = (c \<in> set [CHR '' '', CHR 0x09, CHR 0x0A, CHR 0x0B, CHR 0x0C, CHR 0x0D])"

definition trim :: "string \<Rightarrow> string" where
  "trim s = rev (dropWhile is_space (rev (dropWhile is_space s)))"

text \<open>A string or \<^verbatim>\<open>undefined\<close> is truthy when it is a non-empty string.\<close>

fun truthy :: "string option \<Rightarrow> bool" where
  "truthy None = False"
| "truthy (Some s) = (s \<noteq> [])"

definition ensureApiKey :: "bool \<Rightarrow> world \<Rightarrow> string option \<times> world" where
  "ensureApiKey silent w =
     (let apiKey = secrets w ''nanogpt.apiKey'' in
      if \<not> truthy apiKey \<and> \<not> silent then
        (let w1 = emit InputBox w in
         case userInput w of
           None \<Rightarrow> (apiKey, w1)
         | Some entered \<Rightarrow>
             if entered \<noteq> [] \<and> trim entered \<noteq> [] then
               (let apiKey' = trim entered in
                (Some apiKey', w1\<lparr>secrets := (secrets w1)(''nanogpt.apiKey'' \<mapsto> apiKey')\<rparr>))
             else (apiKey, w1))
      else (apiKey, w))"

subsection \<open>fetchModels\<close>

text \<open>
  The loop over \<^verbatim>\<open>availableFallbacks\<close>: the first endpoint that answers is
  announced by an information message and returned; a failure moves on to the
  next endpoint and is not kept.
\<close>

fun tryFallbacks ::
  "string \<Rightarrow> string \<Rightarrow> ModelType list \<Rightarrow> world \<Rightarrow> FetchResult option \<times> world" where
  "tryFallbacks ua apiKey [] w = (None, w)"
| "tryFallbacks ua apiKey (fallbackType # rest) w =
     (let fallbackEndpoint = ENDPOINT_CONFIGS fallbackType in
      case fetchModelsFromEndpoint apiKey fallbackEndpoint ua w of
        (Inr result, w') \<Rightarrow>
          (Some result,
           emit (InformationMessage (''Primary endpoint unavailable. Using ''
                   @ displayName fallbackEndpoint @ '' instead.'')) w')
      | (Inl fallbackError, w') \<Rightarrow> tryFallbacks ua apiKey rest w')"

definition fallbackEndpoints :: "ModelType \<Rightarrow> ModelType list" where
  "fallbackEndpoints modelType =
     (if modelType \<noteq> All then [All] else [])
     @ (if modelType \<noteq> Premium then [Premium] else [])
     @ (if modelType \<noteq> Subscription then [Subscription] else [])"

definition fetchModels :: "string \<Rightarrow> string \<Rightarrow> FetchResult operation" where
  "fetchModels ua apiKey w =
     (let modelType = getCurrentModelType w;
          primaryEndpoint = ENDPOINT_CONFIGS modelType
      in case fetchModelsFromEndpoint apiKey primaryEndpoint ua w of
           (Inr result, w1) \<Rightarrow> (Inr result, w1)
         | (Inl error, w1) \<Rightarrow>
             (let availableFallbacks =
                    filter (\<lambda>type. type \<noteq> modelType) (fallbackEndpoints modelType)
              in case tryFallbacks ua apiKey availableFallbacks w1 of
                   (Some result, w2) \<Rightarrow> (Inr result, w2)
                 | (None, w2) \<Rightarrow>
                     (let errorMessage = errorMessage error;
                          userMessage = ''Failed to fetch models from all NanoGPT endpoints. Last error: ''
                            @ errorMessage @ ''. Please check your API key and internet connection.''
                      in (Inl (AllEndpointsFailed (displayName primaryEndpoint) errorMessage),
                          emit (ErrorMessage userMessage) w2))))"

subsection \<open>prepareLanguageModelChatInformation\<close>

record Capabilities =
  toolCalling :: bool
  imageInput :: bool

record LanguageModelChatInformation =
  id_i :: string
  name_i :: string
  tooltip :: string
  detail :: string
  family :: string
  version :: string
  maxInputTokens :: int
  maxOutputTokens :: int
  capabilities :: Capabilities

definition DEFAULT_CAPABILITIES :: Capabilities where
  "DEFAULT_CAPABILITIES = \<lparr>toolCalling = True, imageInput = False\<rparr>"

fun categoryName :: "ModelType \<Rightarrow> string" where
  "categoryName All = ''all''"
| "categoryName Premium = ''premium''"
| "categoryName Subscription = ''subscription''"

text \<open>
  The body of the \<^verbatim>\<open>try\<close> of the loop over the fetched models: \<open>Inr None\<close> is the
  \<^verbatim>\<open>continue\<close> of an entry whose id is empty, \<open>Inr (Some info)\<close> the descriptor
  that is pushed. No statement of the body throws on an entry of the validated
  response, so the body has no \<open>Inl\<close> result. A category is a non-empty string, so
  \<^verbatim>\<open>m.category ? ... : ''\<close> takes its first branch.
\<close>

definition modelInfo :: "CategorizedModel \<Rightarrow> js_error + LanguageModelChatInformation option" where
  "modelInfo m =
     (if id_m m = [] then Inr None
      else
        (let capabilities = \<lparr>toolCalling = True,
                              imageInput = (case vision m of None \<Rightarrow> False | Some b \<Rightarrow> b)\<rparr>;
             categoryInfo = '' ['' @ categoryName (category m) @ '']'';
             ownerInfo = (case owned_by m of
                            None \<Rightarrow> ''NanoGPT Model''
                          | Some owner \<Rightarrow>
                              if owner \<noteq> [] then ''Owned by '' @ owner else ''NanoGPT Model'')
         in Inr (Some \<lparr>id_i = id_m m, name_i = name_m m,
                        tooltip = ownerInfo @ categoryInfo,
                        detail = ''NanoGPT.com'', family = ''nanogpt'', version = ''1.0.0'',
                        maxInputTokens = (case context_length m of None \<Rightarrow> DEFAULT_CONTEXT_LENGTH | Some n \<Rightarrow> n),
                        maxOutputTokens = (case max_output_length m of None \<Rightarrow> DEFAULT_MAX_OUTPUT_TOKENS | Some n \<Rightarrow> n),
                        capabilities = capabilities\<rparr>)))"

text \<open>The descriptor of the \<^verbatim>\<open>catch\<close> clause; \<open>n\<close> is \<^verbatim>\<open>infos.length\<close>.\<close>

definition fallbackInfo :: "CategorizedModel \<Rightarrow> nat \<Rightarrow> LanguageModelChatInformation" where
  "fallbackInfo m n =
     \<lparr>id_i = (if id_m m \<noteq> [] then id_m m else ''model-'' @ show_nat n),
      name_i = (if name_m m \<noteq> [] then name_m m else ''Model '' @ show_nat (n + 1)),
      tooltip = ''NanoGPT Model'' @ '' ['' @ categoryName (category m) @ '']'',
      detail = ''NanoGPT.com'', family = ''nanogpt'', version = ''1.0.0'',
      maxInputTokens = DEFAULT_CONTEXT_LENGTH,
      maxOutputTokens = DEFAULT_MAX_OUTPUT_TOKENS,
      capabilities = DEFAULT_CAPABILITIES\<rparr>"

fun processModels ::
  "CategorizedModel list \<Rightarrow> LanguageModelChatInformation list \<Rightarrow> LanguageModelChatInformation list" where
  "processModels [] infos = infos"
| "processModels (m # ms) infos =
     (case modelInfo m of
        Inr None \<Rightarrow> processModels ms infos
      | Inr (Some info) \<Rightarrow> processModels ms (infos @ [info])
      | Inl error \<Rightarrow> processModels ms (infos @ [fallbackInfo m (length infos)]))"

text \<open>The cancellation token of the host; the source names the parameter \<^verbatim>\<open>_token\<close> and never reads it.\<close>

record CancellationToken =
  isCancellationRequested :: bool

definition prepareLanguageModelChatInformation ::
  "string \<Rightarrow> bool \<Rightarrow> CancellationToken \<Rightarrow> world \<Rightarrow> LanguageModelChatInformation list \<times> world" where
  "prepareLanguageModelChatInformation ua silent token w =
     (case ensureApiKey silent w of
        (None, w1) \<Rightarrow> ([], w1)
      | (Some apiKey, w1) \<Rightarrow>
          if apiKey = [] then ([], w1)
          else
            (case fetchModels ua apiKey w1 of
               (Inl error, w2) \<Rightarrow>
                 ([], if \<not> silent then
                        emit (InformationMessage (''Unable to load NanoGPT models: ''
                                @ errorMessage error
                                @ ''. Please check your API key and try again.'')) w2
                      else w2)
             | (Inr result, w2) \<Rightarrow> (processModels (models result) [], w2)))"

section \<open>src/nanogptModels.ts: the service with one endpoint\<close>

text \<open>
  The second copy of the service in the repository asks one endpoint, once, with
  no retry and no fallback. Its \<^verbatim>\<open>ensureApiKey\<close> is the same code as above. Its
  \<^verbatim>\<open>fetchModels\<close> shows an information message before it throws on a response
  that is not \<^verbatim>\<open>ok\<close> or that the schema rejects, and its messages differ.
\<close>

fun errorMessage1 :: "js_error \<Rightarrow> string" where
  "errorMessage1 (HttpStatusError status statusText errorText) =
     ''Failed to fetch NanoGPT models: '' @ show_nat status
     @ (if statusText \<noteq> [] then '' '' @ statusText else [])
     @ (if errorText \<noteq> [] then [CHR 0x0A] @ errorText else [])"
| "errorMessage1 (ValidationError msg) = ''Invalid API response format from NanoGPT: '' @ msg"
| "errorMessage1 EmptyCatalogError = ''No models data found in validated API response''"
| "errorMessage1 (NetworkError msg) = msg"
| "errorMessage1 (JsonError msg) = msg"
| "errorMessage1 error = errorMessage error"

definition fetchModels1 :: "string \<Rightarrow> string \<Rightarrow> NanoGPTModelDetails list operation" where
  "fetchModels1 ua apiKey w =
     (let req = \<lparr>request_url = BASE_URL @ ''/models?detailed=true'',
                  authorization = ''Bearer '' @ apiKey, userAgent = ua\<rparr>;
          resp = network w (length (requests w)) req;
          w' = emit (Fetch req) w
      in case resp of
           FetchRejected msg \<Rightarrow> (Inl (NetworkError msg), w')
         | HttpResponse status statusText errorText rawData \<Rightarrow>
             if \<not> response_ok status then
               (Inl (HttpStatusError status statusText errorText),
                emit (InformationMessage (''Failed to fetch models from NanoGPT ('' @ show_nat status
                        @ ''): '' @ (if statusText \<noteq> [] then statusText else ''Network error'')
                        @ ''. Please check your API key and internet connection.'')) w')
             else (case rawData of
                     NotJson msg \<Rightarrow> (Inl (JsonError msg), w')
                   | SchemaMismatch msg \<Rightarrow>
                       (Inl (ValidationError msg),
                        emit (InformationMessage ''Failed to parse model data from NanoGPT API. The API response format may have changed. Please try again later.'') w')
                   | Parsed data \<Rightarrow>
                       if data = [] then (Inl EmptyCatalogError, w') else (Inr data, w')))"

definition modelInfo1 :: "NanoGPTModelDetails \<Rightarrow> js_error + LanguageModelChatInformation option" where
  "modelInfo1 m =
     (if id_m m = [] then Inr None
      else
        (let capabilities = \<lparr>toolCalling = True,
                              imageInput = (case vision m of None \<Rightarrow> False | Some b \<Rightarrow> b)\<rparr>
         in Inr (Some \<lparr>id_i = id_m m, name_i = id_m m,
                        tooltip = (case owned_by m of
                                     None \<Rightarrow> ''NanoGPT Model''
                                   | Some owner \<Rightarrow>
                                       if owner \<noteq> [] then ''Owned by '' @ owner else ''NanoGPT Model''),
                        detail = ''NanoGPT.com'', family = ''nanogpt'', version = ''1.0.0'',
                        maxInputTokens = (case context_length m of None \<Rightarrow> DEFAULT_CONTEXT_LENGTH | Some n \<Rightarrow> n),
                        maxOutputTokens = (case max_output_length m of None \<Rightarrow> DEFAULT_MAX_OUTPUT_TOKENS | Some n \<Rightarrow> n),
                        capabilities = capabilities\<rparr>)))"

definition fallbackInfo1 :: "NanoGPTModelDetails \<Rightarrow> nat \<Rightarrow> LanguageModelChatInformation" where
  "fallbackInfo1 m n =
     \<lparr>id_i = (if id_m m \<noteq> [] then id_m m else ''model-'' @ show_nat n),
      name_i = (if id_m m \<noteq> [] then id_m m else ''Model '' @ show_nat (n + 1)),
      tooltip = ''NanoGPT Model'',
      detail = ''NanoGPT.com'', family = ''nanogpt'', version = ''1.0.0'',
      maxInputTokens = DEFAULT_CONTEXT_LENGTH,
      maxOutputTokens = DEFAULT_MAX_OUTPUT_TOKENS,
      capabilities = DEFAULT_CAPABILITIES\<rparr>"

fun processModels1 ::
  "NanoGPTModelDetails list \<Rightarrow> LanguageModelChatInformation list \<Rightarrow> LanguageModelChatInformation list" where
  "processModels1 [] infos = infos"
| "processModels1 (m # ms) infos =
     (case modelInfo1 m of
        Inr None \<Rightarrow> processModels1 ms infos
      | Inr (Some info) \<Rightarrow> processModels1 ms (infos @ [info])
      | Inl error \<Rightarrow> processModels1 ms (infos @ [fallbackInfo1 m (length infos)]))"

definition prepareLanguageModelChatInformation1 ::
  "string \<Rightarrow> bool \<Rightarrow> CancellationToken \<Rightarrow> world \<Rightarrow> LanguageModelChatInformation list \<times> world" where
  "prepareLanguageModelChatInformation1 ua silent token w =
     (case ensureApiKey silent w of
        (None, w1) \<Rightarrow> ([], w1)
      | (Some apiKey, w1) \<Rightarrow>
          if apiKey = [] then ([], w1)
          else
            (case fetchModels1 ua apiKey w1 of
               (Inl error, w2) \<Rightarrow>
                 ([], if \<not> silent then
                        emit (InformationMessage (''Unable to load NanoGPT models: ''
                                @ errorMessage1 error
                                @ ''. Please check your API key and try again.'')) w2
                      else w2)
             | (Inr fetched, w2) \<Rightarrow> (processModels1 fetched [], w2)))"

section \<open>The resolution order as the specification words it\<close>

text \<open>
  The endpoint registry lists its categories in the order all, premium,
  subscription. Resolution is specified as: the preferred category first, then the
  remaining categories in registry order with the one already tried excluded, each
  attempted once (one call of \<^verbatim>\<open>fetchModelsFromEndpoint\<close>, with its own retry
  budget), stopping at the first that succeeds. These definitions follow those
  words; the theorems compare \<open>fetchModels\<close> with them.
\<close>

definition registryOrder :: "ModelType list" where
  "registryOrder = [All, Premium, Subscription]"

definition resolutionOrder :: "ModelType \<Rightarrow> ModelType list" where
  "resolutionOrder preferred = preferred # filter (\<lambda>c. c \<noteq> preferred) registryOrder"

fun attemptInOrder ::
  "string \<Rightarrow> string \<Rightarrow> ModelType list \<Rightarrow> world \<Rightarrow> FetchResult option \<times> world" where
  "attemptInOrder ua apiKey [] w = (None, w)"
| "attemptInOrder ua apiKey (c # cs) w =
     (case fetchModelsFromEndpoint apiKey (ENDPOINT_CONFIGS c) ua w of
        (Inr result, w') \<Rightarrow> (Some result, w')
      | (Inl error, w') \<Rightarrow> attemptInOrder ua apiKey cs w')"

text \<open>The effects of one attempt at a category whose three requests all fail.\<close>

definition attemptEvents :: "string \<Rightarrow> string \<Rightarrow> ModelType \<Rightarrow> event list" where
  "attemptEvents ua apiKey c =
     [Fetch (endpointRequest apiKey (ENDPOINT_CONFIGS c) ua), Timeout 1000,
      Fetch (endpointRequest apiKey (ENDPOINT_CONFIGS c) ua), Timeout 2000,
      Fetch (endpointRequest apiKey (ENDPOINT_CONFIGS c) ua)]"

section \<open>The feature composer\<close>

text \<open>
  The sources of the service (types.ts, nanogptModels.ts) hold the configuration
  schema of the feature toggles, with a default of 30 days of memory, and no code
  that composes a request from them. The composer is therefore taken from
  section 4.5 of the specification. The toggles and the per-call override are
  flat records; an absent field of the override is \<open>None\<close>. Effort, mode and
  provider are enumerations, so of the four validations only that of the days
  can fail here.
\<close>

datatype Effort = Low | Medium | High

datatype SearchMode = Standard | Deep

datatype Provider = OpenAI | Anthropic | Google

record FeatureToggleSnapshot =
  reasoning_enabled :: bool
  reasoning_effort :: Effort
  memory_enabled :: bool
  memory_days :: int
  search_enabled :: bool
  search_mode :: SearchMode
  byok_enabled :: bool
  byok_provider :: Provider

record PerCallOverride =
  reasoning_enabled_o :: "bool option"
  reasoning_effort_o :: "Effort option"
  memory_enabled_o :: "bool option"
  memory_days_o :: "int option"
  search_enabled_o :: "bool option"
  search_mode_o :: "SearchMode option"
  byok_enabled_o :: "bool option"
  byok_provider_o :: "Provider option"

datatype BodyField = ReasoningField bool Effort | ByokField bool Provider

record ComposedRequest =
  baseId :: string
  suffix :: string
  headers :: "(string \<times> string) list"
  bodyFields :: "(string \<times> BodyField) list"

datatype compose_error = ComposeValidationError string

text \<open>
  Modelled from the spec: the platform default of the memory days, which the
  specification's example gives as 30 (the default of \<^verbatim>\<open>memory.defaultDays\<close> in
  the configuration schema of types.ts).
\<close>

definition PLATFORM_DEFAULT_DAYS :: int where
  "PLATFORM_DEFAULT_DAYS = 30"

definition noOverride :: PerCallOverride where
  "noOverride =
     \<lparr>reasoning_enabled_o = None, reasoning_effort_o = None, memory_enabled_o = None,
      memory_days_o = None, search_enabled_o = None, search_mode_o = None,
      byok_enabled_o = None, byok_provider_o = None\<rparr>"

definition orElse :: "'a option \<Rightarrow> 'a \<Rightarrow> 'a" where
  "orElse override snapshot = (case override of None \<Rightarrow> snapshot | Some v \<Rightarrow> v)"

text \<open>
  Modelled from the spec: the merge of the per-call override into the snapshot,
  absent from the sources. "perCallOverride fields, when present, take precedence
  over the snapshot's defaults field-by-field; absent override fields fall
  through to the snapshot."
\<close>

definition applyOverride :: "FeatureToggleSnapshot \<Rightarrow> PerCallOverride \<Rightarrow> FeatureToggleSnapshot" where
  "applyOverride t ov =
     \<lparr>reasoning_enabled = orElse (reasoning_enabled_o ov) (reasoning_enabled t),
      reasoning_effort = orElse (reasoning_effort_o ov) (reasoning_effort t),
      memory_enabled = orElse (memory_enabled_o ov) (memory_enabled t),
      memory_days = orElse (memory_days_o ov) (memory_days t),
      search_enabled = orElse (search_enabled_o ov) (search_enabled t),
      search_mode = orElse (search_mode_o ov) (search_mode t),
      byok_enabled = orElse (byok_enabled_o ov) (byok_enabled t),
      byok_provider = orElse (byok_provider_o ov) (byok_provider t)\<rparr>"

text \<open>
  Modelled from the spec: the search marker, absent from the sources. "Search: if
  enabled and mode = standard, append :online; if mode = deep, append
  :online/linkup-deep."
\<close>

definition searchMarker :: "FeatureToggleSnapshot \<Rightarrow> string" where
  "searchMarker t =
     (if search_enabled t then
        (case search_mode t of Standard \<Rightarrow> '':online'' | Deep \<Rightarrow> '':online/linkup-deep'')
      else [])"

text \<open>
  Modelled from the spec: the memory marker, absent from the sources. "Memory: if
  enabled and days equals the platform default, append :memory; otherwise append
  :memory-{days}", read as: nothing is appended when memory is not enabled.
\<close>

definition memoryMarker :: "FeatureToggleSnapshot \<Rightarrow> string" where
  "memoryMarker t =
     (if memory_enabled t then
        (if memory_days t = PLATFORM_DEFAULT_DAYS then '':memory''
         else '':memory-'' @ show_nat (nat (memory_days t)))
      else [])"

text \<open>
  Modelled from the spec: \<^verbatim>\<open>compose(baseId, toggles, perCallOverride)\<close>, absent
  from the sources. The days are validated to lie in 1..365 before any token is
  emitted, and a violation produces no request. The search marker is appended
  first, then the memory marker. Reasoning and BYOK are never suffix tokens:
  reasoning is a body field; BYOK is a body field and, when enabled, the header
  \<^verbatim>\<open>x-use-byok: true\<close>. The \<^verbatim>\<open>suffix\<close> of the result is the base id with the
  markers appended, as the examples of the specification print it.
\<close>

definition compose ::
  "string \<Rightarrow> FeatureToggleSnapshot \<Rightarrow> PerCallOverride \<Rightarrow> compose_error + ComposedRequest" where
  "compose base toggles perCallOverride =
     (let t = applyOverride toggles perCallOverride in
      if memory_days t < 1 \<or> 365 < memory_days t then Inl (ComposeValidationError ''memory.days'')
      else Inr \<lparr>baseId = base,
                suffix = base @ searchMarker t @ memoryMarker t,
                headers = (if byok_enabled t then [(''x-use-byok'', ''true'')] else []),
                bodyFields = [(''reasoning'', ReasoningField (reasoning_enabled t) (reasoning_effort t)),
                              (''byok'', ByokField (byok_enabled t) (byok_provider t))]\<rparr>)"

section \<open>Concrete worlds\<close>

text \<open>
  Small worlds on which the theorems below are instantiated: a catalog entry, a
  world with a stored key and a given network, and a world with no stored key.
\<close>

definition entry :: "string \<Rightarrow> NanoGPTModelDetails" where
  "entry i =
     \<lparr>id_m = i, name_m = ''GPT-4o'', description_m = None, object_m = ''model'',
      created = None, owned_by = Some ''openai'', vision = Some True,
      context_length = Some 128000, max_output_length = None, pricing = None,
      supported_features = None, supported_sampling_parameters = None\<rparr>"

definition keyedWorld :: "(nat \<Rightarrow> request \<Rightarrow> response) \<Rightarrow> world" where
  "keyedWorld net =
     \<lparr>secrets = [''nanogpt.apiKey'' \<mapsto> ''sk-1''], modelTypes = None, userInput = None,
      network = net, trace = []\<rparr>"

definition keylessWorld :: "(nat \<Rightarrow> request \<Rightarrow> response) \<Rightarrow> world" where
  "keylessWorld net =
     \<lparr>secrets = Map.empty, modelTypes = Some Premium, userInput = Some ''sk-2'',
      network = net, trace = []\<rparr>"

text \<open>Networks: every request gets the same answer; the first two requests fail.\<close>

definition always :: "response \<Rightarrow> nat \<Rightarrow> request \<Rightarrow> response" where
  "always r n req = r"

definition flaky :: "nat \<Rightarrow> request \<Rightarrow> response" where
  "flaky n req =
     (if n < 2 then HttpResponse 503 ''Service Unavailable'' ''busy'' (NotJson '''')
      else HttpResponse 200 ''OK'' '''' (Parsed [entry ''gpt-4o'']))"

text \<open>
  Every endpoint is down: the endpoint of all models answers 500, the other two
  answer with the given status.
\<close>

definition down :: "nat \<Rightarrow> nat \<Rightarrow> request \<Rightarrow> response" where
  "down status n req =
     (if request_url req = url (ENDPOINT_CONFIGS All)
      then HttpResponse 500 ''Internal Server Error'' '''' (NotJson '''')
      else HttpResponse status ''Unavailable'' '''' (NotJson ''''))"

text \<open>Only the endpoint of all models answers; the other two send an empty catalog.\<close>

definition onlyAll :: "nat \<Rightarrow> request \<Rightarrow> response" where
  "onlyAll n req =
     (if request_url req = url (ENDPOINT_CONFIGS All)
      then HttpResponse 200 ''OK'' '''' (Parsed [entry ''gpt-4o''])
      else HttpResponse 200 ''OK'' '''' (Parsed []))"

definition toggles :: "int \<Rightarrow> FeatureToggleSnapshot" where
  "toggles d =
     \<lparr>reasoning_enabled = True, reasoning_effort = Medium,
      memory_enabled = True, memory_days = d,
      search_enabled = True, search_mode = Standard,
      byok_enabled = False, byok_provider = OpenAI\<rparr>"

text \<open>One endpoint answers with two entries, the first of which has the empty string as its id.\<close>

definition twoEntries :: "nat \<Rightarrow> request \<Rightarrow> response" where
  "twoEntries n req = HttpResponse 200 ''OK'' '''' (Parsed [entry '''', entry ''gpt-4o''])"

definition cancelled :: CancellationToken where
  "cancelled = \<lparr>isCancellationRequested = True\<rparr>"

section \<open>Effects and the retry loop\<close>

lemma delays_emit [simp]:
  "delays (emit (Timeout d) w) = delays w @ [d]"
  "delays (emit (Fetch r) w) = delays w"
  "delays (emit (InformationMessage m) w) = delays w"
  "delays (emit (ErrorMessage m) w) = delays w"
  "delays (emit InputBox w) = delays w"
  by (simp_all add: delays_def emit_def)

lemma requests_emit [simp]:
  "requests (emit (Fetch r) w) = requests w @ [r]"
  "requests (emit (Timeout d) w) = requests w"
  "requests (emit (InformationMessage m) w) = requests w"
  "requests (emit (ErrorMessage m) w) = requests w"
  "requests (emit InputBox w) = requests w"
  by (simp_all add: requests_def emit_def)

lemma emit_fields [simp]:
  "network (emit e w) = network w"
  "secrets (emit e w) = secrets w"
  "modelTypes (emit e w) = modelTypes w"
  "userInput (emit e w) = userInput w"
  "trace (emit e w) = trace w @ [e]"
  by (simp_all add: emit_def)

lemma retryLoop_fail_step:
  assumes "operation w = (Inl e, w1)" and "a < maxAttempts config"
  shows "retryLoop operation config a le w
         = retryLoop operation config (Suc a) (Some e) (emit (Timeout (backoffDelay config a)) w1)"
  using assms by (subst retryLoop.simps) simp

lemma retryLoop_last:
  assumes "operation w = (r, w1)" and "a \<le> maxAttempts config"
    and "isl r \<longrightarrow> a = maxAttempts config"
  shows "retryLoop operation config a le w = (r, w1)"
  using assms by (subst retryLoop.simps) (cases r; simp)

lemma retryLoop_thrice:
  assumes "operation w0 = (Inl e1, w1)"
    and "operation (emit (Timeout (backoffDelay config 1)) w1) = (Inl e2, w2)"
    and "operation (emit (Timeout (backoffDelay config 2)) w2) = (r, w3)"
    and "maxAttempts config = 3"
  shows "retryWithBackoff operation config w0 = (r, w3)"
proof -
  have "retryWithBackoff operation config w0
        = retryLoop operation config (Suc 1) (Some e1) (emit (Timeout (backoffDelay config 1)) w1)"
    unfolding retryWithBackoff_def using assms(1,4) by (intro retryLoop_fail_step) simp_all
  also have "\<dots> = retryLoop operation config (Suc (Suc 1)) (Some e2)
                     (emit (Timeout (backoffDelay config (Suc 1))) w2)"
    using assms(2,4) by (intro retryLoop_fail_step) (simp_all add: numeral_2_eq_2 numeral_3_eq_3)
  also have "\<dots> = (r, w3)"
    using assms(3,4) by (intro retryLoop_last) (simp_all add: numeral_2_eq_2 numeral_3_eq_3)
  finally show ?thesis .
qed

lemma retryLoop_run:
  assumes "\<forall>k<n. \<exists>e. operation (W k) = (Inl e, W' k)
              \<and> W (Suc k) = emit (Timeout (backoffDelay config (a + k))) (W' k)"
    and "operation (W n) = (r, w')"
    and "a + n \<le> maxAttempts config"
    and "isl r \<longrightarrow> a + n = maxAttempts config"
  shows "retryLoop operation config a le (W 0) = (r, w')"
  using assms
proof (induction n arbitrary: a W W' le)
  case 0
  then have le: "a \<le> maxAttempts config" and op: "operation (W 0) = (r, w')"
    and last: "isl r \<longrightarrow> a = maxAttempts config" by simp_all
  show ?case
  proof (cases r)
    case (Inl err)
    with last have "a = maxAttempts config" by simp
    with op Inl show ?thesis
      by (subst retryLoop.simps) simp
  next
    case (Inr v)
    with op le show ?thesis
      by (subst retryLoop.simps) simp
  qed
next
  case (Suc n)
  from Suc.prems(1) obtain e where
    e: "operation (W 0) = (Inl e, W' 0)"
       "W (Suc 0) = emit (Timeout (backoffDelay config a)) (W' 0)"
    by fastforce
  have step: "retryLoop operation config a le (W 0)
      = retryLoop operation config (a + 1) (Some e) (W (Suc 0))"
    using e Suc.prems(3) by (subst retryLoop.simps) simp
  have "retryLoop operation config (a + 1) (Some e) ((W \<circ> Suc) 0) = (r, w')"
  proof (rule Suc.IH [where W' = "W' \<circ> Suc"])
    show "\<forall>k<n. \<exists>e. operation ((W \<circ> Suc) k) = (Inl e, (W' \<circ> Suc) k)
        \<and> (W \<circ> Suc) (Suc k) = emit (Timeout (backoffDelay config (a + 1 + k))) ((W' \<circ> Suc) k)"
    proof (intro allI impI)
      fix k assume "k < n"
      then have "Suc k < Suc n" by simp
      with Suc.prems(1) obtain e' where
        "operation (W (Suc k)) = (Inl e', W' (Suc k))"
        "W (Suc (Suc k)) = emit (Timeout (backoffDelay config (a + Suc k))) (W' (Suc k))"
        by blast
      then show "\<exists>e. operation ((W \<circ> Suc) k) = (Inl e, (W' \<circ> Suc) k)
        \<and> (W \<circ> Suc) (Suc k) = emit (Timeout (backoffDelay config (a + 1 + k))) ((W' \<circ> Suc) k)"
        by simp
    qed
    show "operation ((W \<circ> Suc) n) = (r, w')" using Suc.prems(2) by simp
    show "a + 1 + n \<le> maxAttempts config" using Suc.prems(3) by simp
    show "isl r \<longrightarrow> a + 1 + n = maxAttempts config" using Suc.prems(4) by simp
  qed
  with step show ?case by simp
qed



lemma backoffDelay_RETRY_CONFIG:
  "backoffDelay RETRY_CONFIG 1 = 1000"
  "backoffDelay RETRY_CONFIG 2 = 2000"
  "maxAttempts RETRY_CONFIG = 3"
  by (simp_all add: backoffDelay_def RETRY_CONFIG_def)

lemma fetchOperation_at:
  assumes "length (requests w) = k"
  shows "fetchOperation apiKey ep ua w
         = (checkResponse ep (network w k (endpointRequest apiKey ep ua)),
            emit (Fetch (endpointRequest apiKey ep ua)) w)"
  using assms by (simp add: fetchOperation_def Let_def)

lemma fetchModelsFromEndpoint_three_failures:
  assumes "checkResponse ep (network w (length (requests w)) (endpointRequest apiKey ep ua)) = Inl e1"
    and "checkResponse ep (network w (length (requests w) + 1) (endpointRequest apiKey ep ua)) = Inl e2"
    and "checkResponse ep (network w (length (requests w) + 2) (endpointRequest apiKey ep ua)) = Inl e3"
  shows "fetchModelsFromEndpoint apiKey ep ua w
         = (Inl e3, w\<lparr>trace := trace w @
              [Fetch (endpointRequest apiKey ep ua), Timeout 1000,
               Fetch (endpointRequest apiKey ep ua), Timeout 2000,
               Fetch (endpointRequest apiKey ep ua)]\<rparr>)"
proof -
  let ?rq = "endpointRequest apiKey ep ua"
  let ?op = "fetchOperation apiKey ep ua"
  let ?w1 = "emit (Fetch ?rq) w"
  let ?w2 = "emit (Fetch ?rq) (emit (Timeout 1000) ?w1)"
  let ?w3 = "emit (Fetch ?rq) (emit (Timeout 2000) ?w2)"
  have 1: "?op w = (Inl e1, ?w1)"
    using assms(1) by (simp add: fetchOperation_at [of w "length (requests w)"])
  have 2: "?op (emit (Timeout (backoffDelay RETRY_CONFIG 1)) ?w1) = (Inl e2, ?w2)"
    unfolding backoffDelay_RETRY_CONFIG
    using assms(2) by (simp add: fetchOperation_at [of _ "length (requests w) + 1"])
  have 3: "?op (emit (Timeout (backoffDelay RETRY_CONFIG 2)) ?w2) = (Inl e3, ?w3)"
    unfolding backoffDelay_RETRY_CONFIG
    using assms(3) by (simp add: fetchOperation_at [of _ "length (requests w) + 2"])
  have "retryWithBackoff ?op RETRY_CONFIG w = (Inl e3, ?w3)"
    using 1 2 3 by (rule retryLoop_thrice) (simp add: backoffDelay_RETRY_CONFIG)
  moreover have "?w3 = w\<lparr>trace := trace w @ [Fetch ?rq, Timeout 1000, Fetch ?rq, Timeout 2000, Fetch ?rq]\<rparr>"
    by (simp add: emit_def)
  ultimately show ?thesis by (simp add: fetchModelsFromEndpoint_def)
qed

section \<open>The fallback loop\<close>

lemma tryFallbacks_result:
  "fst (tryFallbacks ua apiKey cs w) = fst (attemptInOrder ua apiKey cs w)"
  by (induction cs arbitrary: w) (auto split: prod.splits sum.splits)

lemma tryFallbacks_world:
  "\<exists>ms. snd (tryFallbacks ua apiKey cs w) = (snd (attemptInOrder ua apiKey cs w))\<lparr>trace := trace (snd (attemptInOrder ua apiKey cs w)) @ ms\<rparr>
      \<and> (fst (attemptInOrder ua apiKey cs w) = None \<longrightarrow> ms = [])
      \<and> list_all is_message ms"
proof (induction cs arbitrary: w)
  case Nil
  show ?case by simp
next
  case (Cons c cs)
  show ?case
  proof (cases "fetchModelsFromEndpoint apiKey (ENDPOINT_CONFIGS c) ua w")
    case (Pair r w')
    show ?thesis
    proof (cases r)
      case (Inl e)
      with Pair Cons.IH [of w'] show ?thesis by simp
    next
      case (Inr v)
      with Pair show ?thesis
        by (auto simp: emit_def intro!: exI [of _ "[InformationMessage _]"])
    qed
  qed
qed

lemma fallbacks_filter:
  "filter (\<lambda>type. type \<noteq> p) (fallbackEndpoints p) = filter (\<lambda>c. c \<noteq> p) registryOrder"
  by (cases p) (simp_all add: fallbackEndpoints_def registryOrder_def)


lemma fetchModelsFromEndpoint_first_success:
  assumes "checkResponse ep (network w (length (requests w)) (endpointRequest apiKey ep ua)) = Inr v"
  shows "fetchModelsFromEndpoint apiKey ep ua w = (Inr v, emit (Fetch (endpointRequest apiKey ep ua)) w)"
proof -
  have "fetchOperation apiKey ep ua w = (Inr v, emit (Fetch (endpointRequest apiKey ep ua)) w)"
    using assms by (simp add: fetchOperation_at [of w "length (requests w)"])
  then show ?thesis
    unfolding fetchModelsFromEndpoint_def retryWithBackoff_def
    by (intro retryLoop_last) (simp_all add: backoffDelay_RETRY_CONFIG)
qed

lemma fetchModels_unfold:
  "fetchModels ua apiKey w =
     (case fetchModelsFromEndpoint apiKey (ENDPOINT_CONFIGS (getCurrentModelType w)) ua w of
        (Inr result, w1) \<Rightarrow> (Inr result, w1)
      | (Inl error, w1) \<Rightarrow>
          (case tryFallbacks ua apiKey (filter (\<lambda>c. c \<noteq> getCurrentModelType w) registryOrder) w1 of
             (Some result, w2) \<Rightarrow> (Inr result, w2)
           | (None, w2) \<Rightarrow>
               (Inl (AllEndpointsFailed (displayName (ENDPOINT_CONFIGS (getCurrentModelType w)))
                       (errorMessage error)),
                emit (ErrorMessage (''Failed to fetch models from all NanoGPT endpoints. Last error: ''
                        @ errorMessage error
                        @ ''. Please check your API key and internet connection.'')) w2)))"
  by (simp add: fetchModels_def Let_def fallbacks_filter split: prod.splits sum.splits option.splits)

lemma filter_nonmessage_emit [simp]:
  "is_message e \<Longrightarrow> filter (\<lambda>e. \<not> is_message e) (trace (emit e w)) = filter (\<lambda>e. \<not> is_message e) (trace w)"
  by (simp add: emit_def)

lemma fetchModelsFromEndpoint_steady_failure:
  assumes "\<And>k. checkResponse ep (network w k (endpointRequest apiKey ep ua)) = Inl e"
  shows "fetchModelsFromEndpoint apiKey ep ua w
         = (Inl e, w\<lparr>trace := trace w @
              [Fetch (endpointRequest apiKey ep ua), Timeout 1000,
               Fetch (endpointRequest apiKey ep ua), Timeout 2000,
               Fetch (endpointRequest apiKey ep ua)]\<rparr>)"
  by (rule fetchModelsFromEndpoint_three_failures) (rule assms)+

lemma attemptInOrder_steady_failure:
  assumes "\<And>c k. c \<in> set cs \<Longrightarrow>
     checkResponse (ENDPOINT_CONFIGS c) (network w k (endpointRequest apiKey (ENDPOINT_CONFIGS c) ua))
       = Inl (e c)"
  shows "attemptInOrder ua apiKey cs w
         = (None, w\<lparr>trace := trace w @ concat (map (attemptEvents ua apiKey) cs)\<rparr>)"
  using assms
proof (induction cs arbitrary: w)
  case Nil
  show ?case by simp
next
  case (Cons c cs)
  let ?w1 = "w\<lparr>trace := trace w @ attemptEvents ua apiKey c\<rparr>"
  have first: "fetchModelsFromEndpoint apiKey (ENDPOINT_CONFIGS c) ua w = (Inl (e c), ?w1)"
    unfolding attemptEvents_def
    by (rule fetchModelsFromEndpoint_steady_failure) (simp add: Cons.prems)
  have "attemptInOrder ua apiKey cs ?w1
        = (None, ?w1\<lparr>trace := trace ?w1 @ concat (map (attemptEvents ua apiKey) cs)\<rparr>)"
    by (rule Cons.IH) (simp add: Cons.prems)
  with first show ?case by simp
qed

lemma tryFallbacks_all_fail:
  assumes "fst (attemptInOrder ua apiKey cs w) = None"
  shows "tryFallbacks ua apiKey cs w = attemptInOrder ua apiKey cs w"
  using assms
  by (induction cs arbitrary: w) (auto split: prod.splits sum.splits)

lemma requests_nonmessage:
  "[r. Fetch r \<leftarrow> filter (\<lambda>e. \<not> is_message e) tr] = [r. Fetch r \<leftarrow> tr]"
proof (induction tr)
  case Nil
  show ?case by simp
next
  case (Cons e tr)
  then show ?case by (cases e) simp_all
qed

lemma requests_of_nonmessages:
  assumes "filter (\<lambda>e. \<not> is_message e) (trace a) = filter (\<lambda>e. \<not> is_message e) (trace b)"
  shows "requests a = requests b"
proof -
  have "requests a = [r. Fetch r \<leftarrow> filter (\<lambda>e. \<not> is_message e) (trace a)]"
    by (simp add: requests_def requests_nonmessage)
  also have "\<dots> = [r. Fetch r \<leftarrow> filter (\<lambda>e. \<not> is_message e) (trace b)]"
    by (simp only: assms)
  also have "\<dots> = requests b"
    by (simp add: requests_def requests_nonmessage)
  finally show ?thesis .
qed

lemma down_checkResponse:
  assumes "network w = down status" and "\<not> response_ok status"
  shows "checkResponse (ENDPOINT_CONFIGS c) (network w k (endpointRequest apiKey (ENDPOINT_CONFIGS c) ua))
         = Inl (if c = All then HttpStatusError 500 ''Internal Server Error'' ''''
                else HttpStatusError status ''Unavailable'' '''')"
  using assms by (cases c) (simp_all add: down_def checkResponse_def endpointRequest_def BASE_URL_def)

lemma show_nat_500: "show_nat 500 = ''500''"
  by (simp add: show_nat.simps digit_char_def)

lemma down_fetchModels:
  assumes "\<not> response_ok status"
  shows "fetchModels ''ua'' ''sk-1'' (keyedWorld (down status))
   = (Inl (AllEndpointsFailed ''All Models'' ''HTTP 500: Internal Server Error - ''),
      (keyedWorld (down status))\<lparr>trace :=
          concat (map (attemptEvents ''ua'' ''sk-1'') [All, Premium, Subscription])
          @ [ErrorMessage ''Failed to fetch models from all NanoGPT endpoints. Last error: HTTP 500: Internal Server Error - . Please check your API key and internet connection.'']\<rparr>)"
proof -
  let ?w = "keyedWorld (down status)"
  have n: "network ?w = down status" and t: "trace ?w = []" and p: "getCurrentModelType ?w = All"
    by (simp_all add: keyedWorld_def getCurrentModelType_def)
  have first: "fetchModelsFromEndpoint ''sk-1'' (ENDPOINT_CONFIGS All) ''ua'' ?w
      = (Inl (HttpStatusError 500 ''Internal Server Error'' ''''),
         ?w\<lparr>trace := trace ?w @ attemptEvents ''ua'' ''sk-1'' All\<rparr>)"
    unfolding attemptEvents_def
    by (rule fetchModelsFromEndpoint_steady_failure)
       (simp add: down_checkResponse [OF n assms, where c = All, simplified])
  let ?w1 = "?w\<lparr>trace := trace ?w @ attemptEvents ''ua'' ''sk-1'' All\<rparr>"
  have n1: "network ?w1 = down status" by (simp add: n)
  have rest: "attemptInOrder ''ua'' ''sk-1'' [Premium, Subscription] ?w1
      = (None, ?w1\<lparr>trace := trace ?w1 @ concat (map (attemptEvents ''ua'' ''sk-1'') [Premium, Subscription])\<rparr>)"
  proof (rule attemptInOrder_steady_failure [where e = "\<lambda>c. HttpStatusError status ''Unavailable'' ''''"])
    fix c k assume "c \<in> set [Premium, Subscription]"
    then have "c \<noteq> All" by auto
    then show "checkResponse (ENDPOINT_CONFIGS c)
        (network ?w1 k (endpointRequest ''sk-1'' (ENDPOINT_CONFIGS c) ''ua''))
        = Inl (HttpStatusError status ''Unavailable'' '''')"
      by (simp only: down_checkResponse [OF n1 assms] if_False)
  qed
  have fb: "tryFallbacks ''ua'' ''sk-1'' [Premium, Subscription] ?w1
      = (None, ?w1\<lparr>trace := trace ?w1 @ concat (map (attemptEvents ''ua'' ''sk-1'') [Premium, Subscription])\<rparr>)"
    using tryFallbacks_all_fail [of "''ua''" "''sk-1''" "[Premium, Subscription]" ?w1]
    by (simp only: rest fst_conv)
  have rest_order: "filter (\<lambda>c. c \<noteq> All) registryOrder = [Premium, Subscription]"
    by (simp add: registryOrder_def)
  show ?thesis
    unfolding fetchModels_unfold p first rest_order prod.case sum.case fb option.case
    by (simp add: t show_nat_500 emit_def)
qed

lemma onlyAll_checkResponse:
  assumes "network w = onlyAll"
  shows "checkResponse (ENDPOINT_CONFIGS c) (network w k (endpointRequest apiKey (ENDPOINT_CONFIGS c) ua))
         = (if c = All
            then Inr \<lparr>models = [categorize (ENDPOINT_CONFIGS All) (entry ''gpt-4o'')],
                      endpoint_r = url (ENDPOINT_CONFIGS All)\<rparr>
            else Inl EmptyCatalogError)"
  using assms by (cases c) (simp_all add: onlyAll_def checkResponse_def endpointRequest_def BASE_URL_def)

lemma onlyAll_attemptInOrder:
  "attemptInOrder ''ua'' ''sk-2'' [Premium, All, Subscription] (keylessWorld onlyAll)
   = (Some \<lparr>models = [categorize (ENDPOINT_CONFIGS All) (entry ''gpt-4o'')],
             endpoint_r = url (ENDPOINT_CONFIGS All)\<rparr>,
      (keylessWorld onlyAll)\<lparr>trace := attemptEvents ''ua'' ''sk-2'' Premium
         @ [Fetch (endpointRequest ''sk-2'' (ENDPOINT_CONFIGS All) ''ua'')]\<rparr>)"
proof -
  let ?w = "keylessWorld onlyAll"
  let ?w1 = "?w\<lparr>trace := trace ?w @ attemptEvents ''ua'' ''sk-2'' Premium\<rparr>"
  let ?v = "\<lparr>models = [categorize (ENDPOINT_CONFIGS All) (entry ''gpt-4o'')],
             endpoint_r = url (ENDPOINT_CONFIGS All)\<rparr>"
  have n: "network ?w = onlyAll" and t: "trace ?w = []"
    by (simp_all add: keylessWorld_def)
  have n1: "network ?w1 = onlyAll" by (simp add: n)
  have first: "fetchModelsFromEndpoint ''sk-2'' (ENDPOINT_CONFIGS Premium) ''ua'' ?w
      = (Inl EmptyCatalogError, ?w1)"
    unfolding attemptEvents_def
    by (rule fetchModelsFromEndpoint_steady_failure)
       (simp only: onlyAll_checkResponse [OF n] ModelType.distinct simp_thms if_False)
  have second: "fetchModelsFromEndpoint ''sk-2'' (ENDPOINT_CONFIGS All) ''ua'' ?w1
      = (Inr ?v, emit (Fetch (endpointRequest ''sk-2'' (ENDPOINT_CONFIGS All) ''ua'')) ?w1)"
    by (rule fetchModelsFromEndpoint_first_success)
       (simp only: onlyAll_checkResponse [OF n1] simp_thms if_True)
  have "attemptInOrder ''ua'' ''sk-2'' [Premium, All, Subscription] ?w
      = (Some ?v, emit (Fetch (endpointRequest ''sk-2'' (ENDPOINT_CONFIGS All) ''ua'')) ?w1)"
    unfolding attemptInOrder.simps first prod.case sum.case second by (rule refl)
  then show ?thesis by (simp add: emit_def t)
qed

section \<open>The loop over the fetched models\<close>

lemma modelInfo_never_throws: "\<not> isl (modelInfo m)"
  by (simp add: modelInfo_def Let_def)

lemma modelInfo1_never_throws: "\<not> isl (modelInfo1 m)"
  by (simp add: modelInfo1_def Let_def)

lemma processModels_acc:
  "map (\<lambda>i. Inr (Some i)) (processModels ms infos)
   = map (\<lambda>i. Inr (Some i)) infos @ map modelInfo (filter (\<lambda>m. id_m m \<noteq> []) ms)"
  by (induction ms arbitrary: infos) (simp_all add: modelInfo_def Let_def)

lemma processModels1_acc:
  "map (\<lambda>i. Inr (Some i)) (processModels1 ms infos)
   = map (\<lambda>i. Inr (Some i)) infos @ map modelInfo1 (filter (\<lambda>m. id_m m \<noteq> []) ms)"
  by (induction ms arbitrary: infos) (simp_all add: modelInfo1_def Let_def)

lemma processModels_ids:
  "map id_i (processModels ms infos) = map id_i infos @ filter (\<lambda>i. i \<noteq> []) (map id_m ms)"
  by (induction ms arbitrary: infos) (simp_all add: modelInfo_def Let_def)

lemma processModels1_ids:
  "map id_i (processModels1 ms infos) = map id_i infos @ filter (\<lambda>i. i \<noteq> []) (map id_m ms)"
  by (induction ms arbitrary: infos) (simp_all add: modelInfo1_def Let_def)

section \<open>Runs of the service on the concrete worlds\<close>

lemma ensureApiKey_stored:
  assumes "secrets w ''nanogpt.apiKey'' = Some k" and "k \<noteq> []"
  shows "ensureApiKey silent w = (Some k, w)"
  using assms by (simp add: ensureApiKey_def)

lemma prepare_stored:
  assumes "secrets w ''nanogpt.apiKey'' = Some k" and "k \<noteq> []"
  shows "prepareLanguageModelChatInformation ua silent token w =
     (case fetchModels ua k w of
        (Inl error, w2) \<Rightarrow>
          ([], if \<not> silent then
                 emit (InformationMessage (''Unable to load NanoGPT models: '' @ errorMessage error
                         @ ''. Please check your API key and try again.'')) w2
               else w2)
      | (Inr result, w2) \<Rightarrow> (processModels (models result) [], w2))"
  using assms
  by (simp add: prepareLanguageModelChatInformation_def ensureApiKey_stored [OF assms])

lemma prepare1_stored:
  assumes "secrets w ''nanogpt.apiKey'' = Some k" and "k \<noteq> []"
  shows "prepareLanguageModelChatInformation1 ua silent token w =
     (case fetchModels1 ua k w of
        (Inl error, w2) \<Rightarrow>
          ([], if \<not> silent then
                 emit (InformationMessage (''Unable to load NanoGPT models: '' @ errorMessage1 error
                         @ ''. Please check your API key and try again.'')) w2
               else w2)
      | (Inr fetched, w2) \<Rightarrow> (processModels1 fetched [], w2))"
  using assms
  by (simp add: prepareLanguageModelChatInformation1_def ensureApiKey_stored [OF assms])

lemma keyedWorld_fields [simp]:
  "secrets (keyedWorld net) ''nanogpt.apiKey'' = Some ''sk-1''"
  "network (keyedWorld net) = net"
  "trace (keyedWorld net) = []"
  "getCurrentModelType (keyedWorld net) = All"
  by (simp_all add: keyedWorld_def getCurrentModelType_def)

lemma twoEntries_fetchModels:
  "fetchModels ''ua'' ''sk-1'' (keyedWorld twoEntries)
   = (Inr \<lparr>models = [categorize (ENDPOINT_CONFIGS All) (entry ''''),
                       categorize (ENDPOINT_CONFIGS All) (entry ''gpt-4o'')],
            endpoint_r = url (ENDPOINT_CONFIGS All)\<rparr>,
      emit (Fetch (endpointRequest ''sk-1'' (ENDPOINT_CONFIGS All) ''ua'')) (keyedWorld twoEntries))"
proof -
  have "fetchModelsFromEndpoint ''sk-1'' (ENDPOINT_CONFIGS All) ''ua'' (keyedWorld twoEntries)
   = (Inr \<lparr>models = [categorize (ENDPOINT_CONFIGS All) (entry ''''),
                       categorize (ENDPOINT_CONFIGS All) (entry ''gpt-4o'')],
            endpoint_r = url (ENDPOINT_CONFIGS All)\<rparr>,
      emit (Fetch (endpointRequest ''sk-1'' (ENDPOINT_CONFIGS All) ''ua'')) (keyedWorld twoEntries))"
    by (rule fetchModelsFromEndpoint_first_success) (simp add: twoEntries_def checkResponse_def)
  then show ?thesis
    unfolding fetchModels_unfold keyedWorld_fields by simp
qed

lemma id_m_categorize [simp]: "id_m (categorize ep m) = id_m m"
  by (simp add: categorize_def NanoGPTModelDetails.defs)

lemma id_m_entry [simp]: "id_m (entry i) = i"
  by (simp add: entry_def)

lemma onlyAll_fetchModels:
  "fetchModels ''ua'' ''sk-1'' (keyedWorld onlyAll)
   = (Inr \<lparr>models = [categorize (ENDPOINT_CONFIGS All) (entry ''gpt-4o'')],
            endpoint_r = url (ENDPOINT_CONFIGS All)\<rparr>,
      emit (Fetch (endpointRequest ''sk-1'' (ENDPOINT_CONFIGS All) ''ua'')) (keyedWorld onlyAll))"
proof -
  have "fetchModelsFromEndpoint ''sk-1'' (ENDPOINT_CONFIGS All) ''ua'' (keyedWorld onlyAll)
   = (Inr \<lparr>models = [categorize (ENDPOINT_CONFIGS All) (entry ''gpt-4o'')],
            endpoint_r = url (ENDPOINT_CONFIGS All)\<rparr>,
      emit (Fetch (endpointRequest ''sk-1'' (ENDPOINT_CONFIGS All) ''ua'')) (keyedWorld onlyAll))"
    by (rule fetchModelsFromEndpoint_first_success)
       (simp only: onlyAll_checkResponse [OF keyedWorld_fields(2)] simp_thms if_True)
  then show ?thesis
    unfolding fetchModels_unfold keyedWorld_fields by simp
qed

lemma onlyAll_prepare:
  "prepareLanguageModelChatInformation ''ua'' silent cancelled (keyedWorld onlyAll)
   = (processModels [categorize (ENDPOINT_CONFIGS All) (entry ''gpt-4o'')] [],
      emit (Fetch (endpointRequest ''sk-1'' (ENDPOINT_CONFIGS All) ''ua'')) (keyedWorld onlyAll))"
  by (simp add: prepare_stored [where k = "''sk-1''"] onlyAll_fetchModels)

lemma down_prepare:
  "prepareLanguageModelChatInformation ''ua'' False cancelled (keyedWorld (down 503))
   = ([], (keyedWorld (down 503))\<lparr>trace :=
          concat (map (attemptEvents ''ua'' ''sk-1'') [All, Premium, Subscription])
          @ [ErrorMessage ''Failed to fetch models from all NanoGPT endpoints. Last error: HTTP 500: Internal Server Error - . Please check your API key and internet connection.'',
             InformationMessage ''Unable to load NanoGPT models: All NanoGPT endpoints failed. Primary: All Models. Last error: HTTP 500: Internal Server Error - . Please check your API key and try again.'']\<rparr>)"
proof -
  have bad: "\<not> response_ok 503" by simp
  show ?thesis
    by (simp add: prepare_stored [where k = "''sk-1''"] down_fetchModels [OF bad] emit_def)
qed

lemma down_fetchModels1:
  "fetchModels1 ''ua'' ''sk-1'' (keyedWorld (down 503))
   = (Inl (HttpStatusError 500 ''Internal Server Error'' ''''),
      (keyedWorld (down 503))\<lparr>trace :=
         [Fetch (endpointRequest ''sk-1'' (ENDPOINT_CONFIGS All) ''ua''),
          InformationMessage ''Failed to fetch models from NanoGPT (500): Internal Server Error. Please check your API key and internet connection.'']\<rparr>)"
  by (simp add: fetchModels1_def Let_def down_def requests_def emit_def endpointRequest_def
        show_nat_500)

lemma show_nat_90: "show_nat 90 = ''90''"
  by (simp add: show_nat.simps digit_char_def)

section \<open>Every fetch issues a request\<close>

lemma retryLoop_fetch_requests:
  assumes "a \<le> maxAttempts config"
  shows "length (requests w)
         < length (requests (snd (retryLoop (fetchOperation apiKey ep ua) config a le w)))"
  using assms
proof (induction "maxAttempts config - a" arbitrary: a le w)
  case 0
  then have last: "a = maxAttempts config" by simp
  obtain r where r: "fetchOperation apiKey ep ua w
      = (r, emit (Fetch (endpointRequest apiKey ep ua)) w)"
    by (simp add: fetchOperation_def Let_def)
  have "retryLoop (fetchOperation apiKey ep ua) config a le w
      = (r, emit (Fetch (endpointRequest apiKey ep ua)) w)"
    using r last by (intro retryLoop_last) simp_all
  then show ?case by simp
next
  case (Suc n)
  then have less: "a < maxAttempts config" by simp
  obtain r where r: "fetchOperation apiKey ep ua w
      = (r, emit (Fetch (endpointRequest apiKey ep ua)) w)"
    by (simp add: fetchOperation_def Let_def)
  show ?case
  proof (cases r)
    case (Inr v)
    have "retryLoop (fetchOperation apiKey ep ua) config a le w
        = (r, emit (Fetch (endpointRequest apiKey ep ua)) w)"
      using r less Inr by (intro retryLoop_last) simp_all
    then show ?thesis by simp
  next
    case (Inl e)
    let ?w' = "emit (Timeout (backoffDelay config a)) (emit (Fetch (endpointRequest apiKey ep ua)) w)"
    have step: "retryLoop (fetchOperation apiKey ep ua) config a le w
        = retryLoop (fetchOperation apiKey ep ua) config (Suc a) (Some e) ?w'"
      using r less Inl by (intro retryLoop_fail_step) simp_all
    have "length (requests ?w')
        < length (requests (snd (retryLoop (fetchOperation apiKey ep ua) config (Suc a) (Some e) ?w')))"
      using Suc.hyps(2) less by (intro Suc.hyps(1)) simp_all
    then show ?thesis by (simp add: step)
  qed
qed

lemma fetchModelsFromEndpoint_requests:
  "length (requests w) < length (requests (snd (fetchModelsFromEndpoint apiKey ep ua w)))"
  unfolding fetchModelsFromEndpoint_def retryWithBackoff_def
  by (rule retryLoop_fetch_requests) (simp add: backoffDelay_RETRY_CONFIG)

lemma tryFallbacks_requests:
  "length (requests w) \<le> length (requests (snd (tryFallbacks ua apiKey cs w)))"
proof (induction cs arbitrary: w)
  case Nil
  show ?case by simp
next
  case (Cons c cs)
  obtain r w' where f: "fetchModelsFromEndpoint apiKey (ENDPOINT_CONFIGS c) ua w = (r, w')"
    by (cases "fetchModelsFromEndpoint apiKey (ENDPOINT_CONFIGS c) ua w")
  have less: "length (requests w) < length (requests w')"
    using fetchModelsFromEndpoint_requests [of w apiKey "ENDPOINT_CONFIGS c" ua] f by simp
  show ?case
  proof (cases r)
    case (Inl e)
    with f less Cons.IH [of w'] show ?thesis by simp
  next
    case (Inr v)
    with f less show ?thesis by simp
  qed
qed

lemma fetchModels_requests:
  "length (requests w) < length (requests (snd (fetchModels ua apiKey w)))"
proof -
  let ?p = "getCurrentModelType w"
  obtain r w1 where f: "fetchModelsFromEndpoint apiKey (ENDPOINT_CONFIGS ?p) ua w = (r, w1)"
    by (cases "fetchModelsFromEndpoint apiKey (ENDPOINT_CONFIGS ?p) ua w")
  have less: "length (requests w) < length (requests w1)"
    using fetchModelsFromEndpoint_requests [of w apiKey "ENDPOINT_CONFIGS ?p" ua] f by simp
  show ?thesis
  proof (cases r)
    case (Inr v)
    with f less show ?thesis by (simp add: fetchModels_unfold)
  next
    case (Inl e)
    let ?rest = "filter (\<lambda>c. c \<noteq> ?p) registryOrder"
    obtain fr w2 where fb: "tryFallbacks ua apiKey ?rest w1 = (fr, w2)"
      by (cases "tryFallbacks ua apiKey ?rest w1")
    have "length (requests w1) \<le> length (requests w2)"
      using tryFallbacks_requests [of w1 ua apiKey ?rest] fb by simp
    with less have "length (requests w) < length (requests w2)" by simp
    with f Inl fb show ?thesis
      by (cases fr) (simp_all add: fetchModels_unfold)
  qed
qed

section \<open>The backoff schedule\<close>

text \<open>
  Claim C6. Between attempt \<open>k\<close> and attempt \<open>k + 1\<close> the retry wrapper suspends
  for \<^verbatim>\<open>delayMs * backoffMultiplier ^ (k - 1)\<close>, whatever the policy and the
  operation. Counting from zero: let \<open>W k\<close> be the world in which attempt \<open>k + 1\<close>
  starts and \<open>W' k\<close> the world in which it ends. If the first \<open>n\<close> attempts fail, the
  world of each next attempt is the world the failed one left plus one timer of
  \<open>delayMs * backoffMultiplier ^ k\<close>, and attempt \<open>n + 1\<close> succeeds (or is the last one
  allowed), then the wrapper returns what that attempt returns, in the world it
  leaves. In particular, with 3 attempts, 1000 ms and multiplier 2, an operation
  that fails twice and then succeeds is resolved with its value after timers of
  exactly 1000 and 2000.
\<close>

theorem retryWithBackoff_backoff:
  "(n < maxAttempts config
      \<and> (\<forall>k<n. \<exists>e. operation (W k) = (Inl e, W' k)
            \<and> W (Suc k) = emit (Timeout (delayMs config * backoffMultiplier config ^ k)) (W' k))
      \<and> operation (W n) = (r, w')
      \<and> (isl r \<longrightarrow> Suc n = maxAttempts config)
    \<longrightarrow> retryWithBackoff operation config (W 0) = (r, w'))
   \<and> (operation w0 = (Inl e1, w1)
      \<and> operation (emit (Timeout 1000) w1) = (Inl e2, w2)
      \<and> operation (emit (Timeout 2000) w2) = (Inr v, w3)
    \<longrightarrow> retryWithBackoff operation \<lparr>maxAttempts = 3, delayMs = 1000, backoffMultiplier = 2\<rparr> w0
          = (Inr v, w3)
        \<and> (delays w1 = delays w0 \<and> delays w2 = delays (emit (Timeout 1000) w1)
             \<and> delays w3 = delays (emit (Timeout 2000) w2)
           \<longrightarrow> delays w3 = delays w0 @ [1000, 2000]))"
proof (intro conjI impI)
  assume h: "n < maxAttempts config
      \<and> (\<forall>k<n. \<exists>e. operation (W k) = (Inl e, W' k)
            \<and> W (Suc k) = emit (Timeout (delayMs config * backoffMultiplier config ^ k)) (W' k))
      \<and> operation (W n) = (r, w')
      \<and> (isl r \<longrightarrow> Suc n = maxAttempts config)"
  have "retryLoop operation config 1 None (W 0) = (r, w')"
  proof (rule retryLoop_run [where W' = W' and n = n])
    show "\<forall>k<n. \<exists>e. operation (W k) = (Inl e, W' k)
        \<and> W (Suc k) = emit (Timeout (backoffDelay config (1 + k))) (W' k)"
      using h by (simp add: backoffDelay_def)
    show "operation (W n) = (r, w')" using h by simp
    show "1 + n \<le> maxAttempts config" using h by simp
    show "isl r \<longrightarrow> 1 + n = maxAttempts config" using h by simp
  qed
  then show "retryWithBackoff operation config (W 0) = (r, w')"
    by (simp add: retryWithBackoff_def)
next
  assume h: "operation w0 = (Inl e1, w1)
      \<and> operation (emit (Timeout 1000) w1) = (Inl e2, w2)
      \<and> operation (emit (Timeout 2000) w2) = (Inr v, w3)"
  show "retryWithBackoff operation \<lparr>maxAttempts = 3, delayMs = 1000, backoffMultiplier = 2\<rparr> w0
          = (Inr v, w3)"
    using h by (intro retryLoop_thrice [where ?e1.0 = e1 and ?e2.0 = e2 and ?w1.0 = w1 and ?w2.0 = w2])
      (simp_all add: backoffDelay_def)
next
  assume "delays w1 = delays w0 \<and> delays w2 = delays (emit (Timeout 1000) w1)
             \<and> delays w3 = delays (emit (Timeout 2000) w2)"
  then show "delays w3 = delays w0 @ [1000, 2000]" by simp
qed

theorem retryWithBackoff_backoff_witness:
  "retryWithBackoff (fetchOperation ''sk-1'' (ENDPOINT_CONFIGS All) ''ua'')
      \<lparr>maxAttempts = 3, delayMs = 1000, backoffMultiplier = 2\<rparr> (keyedWorld flaky)
   = (Inr \<lparr>models = [categorize (ENDPOINT_CONFIGS All) (entry ''gpt-4o'')],
            endpoint_r = url (ENDPOINT_CONFIGS All)\<rparr>,
      (keyedWorld flaky)\<lparr>trace :=
         [Fetch (endpointRequest ''sk-1'' (ENDPOINT_CONFIGS All) ''ua''), Timeout 1000,
          Fetch (endpointRequest ''sk-1'' (ENDPOINT_CONFIGS All) ''ua''), Timeout 2000,
          Fetch (endpointRequest ''sk-1'' (ENDPOINT_CONFIGS All) ''ua'')]\<rparr>)
   \<and> delays (snd (retryWithBackoff (fetchOperation ''sk-1'' (ENDPOINT_CONFIGS All) ''ua'')
        \<lparr>maxAttempts = 3, delayMs = 1000, backoffMultiplier = 2\<rparr> (keyedWorld flaky)))
     = [1000, 2000]"
proof -
  let ?rq = "endpointRequest ''sk-1'' (ENDPOINT_CONFIGS All) ''ua''"
  let ?op = "fetchOperation ''sk-1'' (ENDPOINT_CONFIGS All) ''ua''"
  let ?cfg = "\<lparr>maxAttempts = 3, delayMs = 1000, backoffMultiplier = 2\<rparr>"
  let ?w0 = "keyedWorld flaky"
  let ?w1 = "emit (Fetch ?rq) ?w0"
  let ?w2 = "emit (Fetch ?rq) (emit (Timeout 1000) ?w1)"
  let ?w3 = "emit (Fetch ?rq) (emit (Timeout 2000) ?w2)"
  let ?e = "HttpStatusError 503 ''Service Unavailable'' ''busy''"
  let ?v = "\<lparr>models = [categorize (ENDPOINT_CONFIGS All) (entry ''gpt-4o'')],
            endpoint_r = url (ENDPOINT_CONFIGS All)\<rparr>"
  let ?W = "\<lambda>k::nat. if k = 0 then ?w0 else if k = 1 then emit (Timeout 1000) ?w1
                     else emit (Timeout 2000) ?w2"
  let ?W' = "\<lambda>k::nat. if k = 0 then ?w1 else ?w2"
  have r0: "requests ?w0 = []" by (simp add: keyedWorld_def requests_def)
  have n0: "network ?w0 = flaky" by (simp add: keyedWorld_def)
  have 1: "?op ?w0 = (Inl ?e, ?w1)"
    by (simp add: fetchOperation_def Let_def r0 n0 flaky_def checkResponse_def)
  have 2: "?op (emit (Timeout 1000) ?w1) = (Inl ?e, ?w2)"
    by (simp add: fetchOperation_def Let_def r0 n0 flaky_def checkResponse_def)
  have 3: "?op (emit (Timeout 2000) ?w2) = (Inr ?v, ?w3)"
    by (simp add: fetchOperation_def Let_def r0 n0 flaky_def checkResponse_def)
  have t: "?w3 = ?w0\<lparr>trace := [Fetch ?rq, Timeout 1000, Fetch ?rq, Timeout 2000, Fetch ?rq]\<rparr>"
    by (simp add: emit_def keyedWorld_def)
  have steps: "\<forall>k<2. \<exists>e. ?op (?W k) = (Inl e, ?W' k)
       \<and> ?W (Suc k) = emit (Timeout (delayMs ?cfg * backoffMultiplier ?cfg ^ k)) (?W' k)"
  proof (intro allI impI)
    fix k :: nat assume "k < 2"
    then have "k = 0 \<or> k = 1" by auto
    then show "\<exists>e. ?op (?W k) = (Inl e, ?W' k)
       \<and> ?W (Suc k) = emit (Timeout (delayMs ?cfg * backoffMultiplier ?cfg ^ k)) (?W' k)"
      using 1 2 by auto
  qed
  have last: "?op (?W 2) = (Inr ?v, ?w3)" using 3 by simp
  from retryWithBackoff_backoff [THEN conjunct1, rule_format, of 2 ?cfg ?op ?W ?W' "Inr ?v" ?w3]
    steps last
  have general: "retryWithBackoff ?op ?cfg ?w0 = (Inr ?v, ?w3)"
    by simp
  from retryWithBackoff_backoff [THEN conjunct2, rule_format, of ?op ?w0 ?e ?w1 ?e ?w2 ?v ?w3] 1 2 3
  have res: "retryWithBackoff ?op ?cfg ?w0 = (Inr ?v, ?w3)"
    by simp
  have d3: "delays (?w0\<lparr>trace := [Fetch ?rq, Timeout 1000, Fetch ?rq, Timeout 2000, Fetch ?rq]\<rparr>)
      = [1000, 2000]"
    by (simp add: delays_def)
  show ?thesis
    unfolding res t snd_conv d3 by (rule conjI) (rule refl)+
qed

section \<open>Which failures are retried\<close>

text \<open>
  Claim C1, as amended. The retry wrapper does not look at the class of a failure.
  When each of the three attempts of a fetch fails, in whatever way (a rejected
  request, a response that is not \<^verbatim>\<open>ok\<close>, a body the schema rejects, an empty
  \<^verbatim>\<open>data\<close> array), the failure of the third attempt is returned to the caller
  after exactly three requests, with timers of 1000 and 2000 between them.
\<close>

theorem fetch_retries_every_failure:
  assumes "checkResponse ep (network w (length (requests w)) (endpointRequest apiKey ep ua)) = Inl e1"
    and "checkResponse ep (network w (length (requests w) + 1) (endpointRequest apiKey ep ua)) = Inl e2"
    and "checkResponse ep (network w (length (requests w) + 2) (endpointRequest apiKey ep ua)) = Inl e3"
  shows "fst (fetchModelsFromEndpoint apiKey ep ua w) = Inl e3
    \<and> requests (snd (fetchModelsFromEndpoint apiKey ep ua w))
        = requests w @ replicate 3 (endpointRequest apiKey ep ua)
    \<and> delays (snd (fetchModelsFromEndpoint apiKey ep ua w)) = delays w @ [1000, 2000]"
  by (simp add: fetchModelsFromEndpoint_three_failures [OF assms] requests_def delays_def
        numeral_3_eq_3)

theorem fetch_retries_every_failure_witness:
  "checkResponse (ENDPOINT_CONFIGS Premium) (HttpResponse 200 ''OK'' '''' (Parsed []))
     = Inl EmptyCatalogError
   \<and> fst (fetchModelsFromEndpoint ''sk-1'' (ENDPOINT_CONFIGS Premium) ''ua''
        (keyedWorld (always (HttpResponse 200 ''OK'' '''' (Parsed []))))) = Inl EmptyCatalogError
   \<and> length (requests (snd (fetchModelsFromEndpoint ''sk-1'' (ENDPOINT_CONFIGS Premium) ''ua''
        (keyedWorld (always (HttpResponse 200 ''OK'' '''' (Parsed []))))))) = 3
   \<and> delays (snd (fetchModelsFromEndpoint ''sk-1'' (ENDPOINT_CONFIGS Premium) ''ua''
        (keyedWorld (always (HttpResponse 200 ''OK'' '''' (Parsed [])))))) = [1000, 2000]"
proof -
  let ?w = "keyedWorld (always (HttpResponse 200 ''OK'' '''' (Parsed [])))"
  let ?ep = "ENDPOINT_CONFIGS Premium"
  have c: "checkResponse ?ep (HttpResponse 200 ''OK'' '''' (Parsed [])) = Inl EmptyCatalogError"
    by (simp add: checkResponse_def)
  have h: "checkResponse ?ep (network ?w k (endpointRequest ''sk-1'' ?ep ''ua'')) = Inl EmptyCatalogError" for k
    by (simp add: keyedWorld_def always_def checkResponse_def)
  have r: "requests ?w = []" and d: "delays ?w = []"
    by (simp_all add: keyedWorld_def requests_def delays_def)
  show ?thesis
    using fetch_retries_every_failure [OF h h h] c r d by simp
qed

text \<open>
  The claim as first stated fails: a body that the schema rejects at every attempt
  is a validation failure of the operation, and the wrapper issues three requests
  and two timers before it returns it.
\<close>

theorem validation_failure_retried_counterexample:
  "fst (fetchOperation ''sk-1'' (ENDPOINT_CONFIGS All) ''ua''
          (keyedWorld (always (HttpResponse 200 ''OK'' '''' (SchemaMismatch ''data: Required'')))))
     = Inl (ValidationError ''data: Required'')
   \<and> fst (fetchModelsFromEndpoint ''sk-1'' (ENDPOINT_CONFIGS All) ''ua''
          (keyedWorld (always (HttpResponse 200 ''OK'' '''' (SchemaMismatch ''data: Required'')))))
     = Inl (ValidationError ''data: Required'')
   \<and> length (requests (snd (fetchModelsFromEndpoint ''sk-1'' (ENDPOINT_CONFIGS All) ''ua''
          (keyedWorld (always (HttpResponse 200 ''OK'' '''' (SchemaMismatch ''data: Required''))))))) = 3
   \<and> delays (snd (fetchModelsFromEndpoint ''sk-1'' (ENDPOINT_CONFIGS All) ''ua''
          (keyedWorld (always (HttpResponse 200 ''OK'' '''' (SchemaMismatch ''data: Required'')))))) = [1000, 2000]"
proof -
  let ?w = "keyedWorld (always (HttpResponse 200 ''OK'' '''' (SchemaMismatch ''data: Required'')))"
  let ?ep = "ENDPOINT_CONFIGS All"
  have h: "checkResponse ?ep (network ?w k (endpointRequest ''sk-1'' ?ep ''ua''))
      = Inl (ValidationError ''data: Required'')" for k
    by (simp add: keyedWorld_def always_def checkResponse_def)
  have r: "requests ?w = []" and d: "delays ?w = []"
    by (simp_all add: keyedWorld_def requests_def delays_def)
  have o: "fst (fetchOperation ''sk-1'' ?ep ''ua'' ?w) = Inl (ValidationError ''data: Required'')"
    using h [of 0] by (simp add: fetchOperation_def Let_def r)
  note f = fetchModelsFromEndpoint_three_failures [OF h h h]
  have t: "trace ?w = []" by (simp add: keyedWorld_def)
  show ?thesis
    unfolding f o by (simp add: requests_def delays_def t)
qed

section \<open>The order of resolution\<close>

text \<open>
  Claim C3. For every preferred category, \<^verbatim>\<open>fetchModels\<close> attempts the preferred
  category first and then the remaining categories in the registry order all,
  premium, subscription, the one already tried excluded, each once, and returns
  at the first that succeeds: it succeeds with a result exactly when attempting
  the categories of \<open>resolutionOrder\<close> in order does, with that result, and it fails
  exactly when all of them fail; the requests and timers it causes are those of
  the attempts in that order; and that order holds each category once.
\<close>

theorem fetchModels_resolution_order:
  "(case fst (fetchModels ua apiKey w) of
      Inr result \<Rightarrow>
        fst (attemptInOrder ua apiKey (resolutionOrder (getCurrentModelType w)) w) = Some result
    | Inl error \<Rightarrow>
        fst (attemptInOrder ua apiKey (resolutionOrder (getCurrentModelType w)) w) = None)
   \<and> filter (\<lambda>e. \<not> is_message e) (trace (snd (fetchModels ua apiKey w)))
     = filter (\<lambda>e. \<not> is_message e)
         (trace (snd (attemptInOrder ua apiKey (resolutionOrder (getCurrentModelType w)) w)))
   \<and> distinct (resolutionOrder (getCurrentModelType w))
   \<and> set (resolutionOrder (getCurrentModelType w)) = {All, Premium, Subscription}"
proof -
  let ?p = "getCurrentModelType w"
  let ?rest = "filter (\<lambda>c. c \<noteq> ?p) registryOrder"
  obtain r w1 where first: "fetchModelsFromEndpoint apiKey (ENDPOINT_CONFIGS ?p) ua w = (r, w1)"
    by (cases "fetchModelsFromEndpoint apiKey (ENDPOINT_CONFIGS ?p) ua w")
  have order: "distinct (resolutionOrder ?p) \<and> set (resolutionOrder ?p) = {All, Premium, Subscription}"
    by (cases ?p) (auto simp: resolutionOrder_def registryOrder_def)
  show ?thesis
  proof (cases r)
    case (Inr v)
    with first order show ?thesis
      by (simp add: fetchModels_unfold resolutionOrder_def)
  next
    case (Inl e)
    obtain ms where ms:
      "snd (tryFallbacks ua apiKey ?rest w1)
         = (snd (attemptInOrder ua apiKey ?rest w1))\<lparr>trace := trace (snd (attemptInOrder ua apiKey ?rest w1)) @ ms\<rparr>"
      "list_all is_message ms"
      using tryFallbacks_world [of ua apiKey ?rest w1] by blast
    have nm: "filter (\<lambda>e. \<not> is_message e) ms = []"
      using ms(2) by (induction ms) auto
    obtain fr w2 where fb: "tryFallbacks ua apiKey ?rest w1 = (fr, w2)"
      by (cases "tryFallbacks ua apiKey ?rest w1")
    have res: "fst (attemptInOrder ua apiKey ?rest w1) = fr"
      using tryFallbacks_result [of ua apiKey ?rest w1] fb by simp
    have w2: "filter (\<lambda>e. \<not> is_message e) (trace w2)
        = filter (\<lambda>e. \<not> is_message e) (trace (snd (attemptInOrder ua apiKey ?rest w1)))"
      using ms(1) fb nm by simp
    show ?thesis
      using first Inl fb res w2 order
      by (cases fr) (simp_all add: fetchModels_unfold resolutionOrder_def)
  qed
qed

theorem fetchModels_resolution_order_witness:
  "resolutionOrder (getCurrentModelType (keylessWorld onlyAll)) = [Premium, All, Subscription]
   \<and> fst (fetchModels ''ua'' ''sk-2'' (keylessWorld onlyAll))
     = Inr \<lparr>models = [categorize (ENDPOINT_CONFIGS All) (entry ''gpt-4o'')],
            endpoint_r = url (ENDPOINT_CONFIGS All)\<rparr>
   \<and> requests (snd (fetchModels ''ua'' ''sk-2'' (keylessWorld onlyAll)))
     = [endpointRequest ''sk-2'' (ENDPOINT_CONFIGS Premium) ''ua'',
        endpointRequest ''sk-2'' (ENDPOINT_CONFIGS Premium) ''ua'',
        endpointRequest ''sk-2'' (ENDPOINT_CONFIGS Premium) ''ua'',
        endpointRequest ''sk-2'' (ENDPOINT_CONFIGS All) ''ua'']"
proof -
  let ?w = "keylessWorld onlyAll"
  let ?v = "\<lparr>models = [categorize (ENDPOINT_CONFIGS All) (entry ''gpt-4o'')],
             endpoint_r = url (ENDPOINT_CONFIGS All)\<rparr>"
  let ?w' = "?w\<lparr>trace := attemptEvents ''ua'' ''sk-2'' Premium
         @ [Fetch (endpointRequest ''sk-2'' (ENDPOINT_CONFIGS All) ''ua'')]\<rparr>"
  have order: "resolutionOrder (getCurrentModelType ?w) = [Premium, All, Subscription]"
    by (simp add: keylessWorld_def getCurrentModelType_def resolutionOrder_def registryOrder_def)
  note inst = fetchModels_resolution_order [of "''ua''" "''sk-2''" ?w]
  have result: "fst (fetchModels ''ua'' ''sk-2'' ?w) = Inr ?v"
    using inst [THEN conjunct1] unfolding order onlyAll_attemptInOrder fst_conv
    by (cases "fst (fetchModels ''ua'' ''sk-2'' ?w)") simp_all
  have "filter (\<lambda>e. \<not> is_message e) (trace (snd (fetchModels ''ua'' ''sk-2'' ?w)))
      = filter (\<lambda>e. \<not> is_message e) (trace ?w')"
    using inst [THEN conjunct2, THEN conjunct1] unfolding order onlyAll_attemptInOrder snd_conv .
  then have "requests (snd (fetchModels ''ua'' ''sk-2'' ?w)) = requests ?w'"
    by (rule requests_of_nonmessages)
  also have "requests ?w' = [endpointRequest ''sk-2'' (ENDPOINT_CONFIGS Premium) ''ua'',
        endpointRequest ''sk-2'' (ENDPOINT_CONFIGS Premium) ''ua'',
        endpointRequest ''sk-2'' (ENDPOINT_CONFIGS Premium) ''ua'',
        endpointRequest ''sk-2'' (ENDPOINT_CONFIGS All) ''ua'']"
    by (simp add: requests_def attemptEvents_def)
  finally show ?thesis using order result by simp
qed

section \<open>When every category fails\<close>

text \<open>
  Claim C2, as amended. When the fetch of every category fails, the error raised
  by \<^verbatim>\<open>fetchModels\<close> is the one error built at the end of its \<^verbatim>\<open>catch\<close> clause: it
  carries the display name of the preferred category and the message of the
  preferred category's error, and nothing else. The same message is shown as an
  error message after the last attempt.
\<close>

theorem all_fail_error:
  assumes "fst (attemptInOrder ua apiKey (resolutionOrder (getCurrentModelType w)) w) = None"
  shows "\<exists>error. fst (fetchModelsFromEndpoint apiKey (ENDPOINT_CONFIGS (getCurrentModelType w)) ua w)
                  = Inl error
     \<and> fst (fetchModels ua apiKey w)
       = Inl (AllEndpointsFailed (displayName (ENDPOINT_CONFIGS (getCurrentModelType w)))
                (errorMessage error))
     \<and> trace (snd (fetchModels ua apiKey w))
       = trace (snd (attemptInOrder ua apiKey (resolutionOrder (getCurrentModelType w)) w))
         @ [ErrorMessage (''Failed to fetch models from all NanoGPT endpoints. Last error: ''
              @ errorMessage error @ ''. Please check your API key and internet connection.'')]"
proof -
  let ?p = "getCurrentModelType w"
  let ?rest = "filter (\<lambda>c. c \<noteq> ?p) registryOrder"
  obtain r w1 where first: "fetchModelsFromEndpoint apiKey (ENDPOINT_CONFIGS ?p) ua w = (r, w1)"
    by (cases "fetchModelsFromEndpoint apiKey (ENDPOINT_CONFIGS ?p) ua w")
  from assms first obtain e where e: "r = Inl e"
    by (cases r) (simp_all add: resolutionOrder_def)
  with assms first have none: "fst (attemptInOrder ua apiKey ?rest w1) = None"
    by (simp add: resolutionOrder_def)
  then have fr: "fst (tryFallbacks ua apiKey ?rest w1) = None"
    by (simp add: tryFallbacks_result)
  from tryFallbacks_world [of ua apiKey ?rest w1] none
  have sw: "snd (tryFallbacks ua apiKey ?rest w1) = snd (attemptInOrder ua apiKey ?rest w1)"
    by auto
  obtain w2 where fb: "tryFallbacks ua apiKey ?rest w1 = (None, w2)"
    using fr by (cases "tryFallbacks ua apiKey ?rest w1") simp
  show ?thesis
    using first e fb sw
    by (intro exI [of _ e]) (simp add: fetchModels_unfold resolutionOrder_def)
qed

theorem all_fail_error_witness:
  "fst (attemptInOrder ''ua'' ''sk-1''
          (resolutionOrder (getCurrentModelType (keyedWorld (down 503)))) (keyedWorld (down 503)))
     = None
   \<and> fst (fetchModels ''ua'' ''sk-1'' (keyedWorld (down 503)))
     = Inl (AllEndpointsFailed ''All Models'' ''HTTP 500: Internal Server Error - '')"
proof -
  let ?w = "keyedWorld (down 503)"
  let ?e = "\<lambda>c. if c = All then HttpStatusError 500 ''Internal Server Error'' ''''
                else HttpStatusError 503 ''Unavailable'' ''''"
  have n: "network ?w = down 503" by (simp add: keyedWorld_def)
  have bad: "\<not> response_ok 503" by simp
  have p: "getCurrentModelType ?w = All"
    by (simp add: keyedWorld_def getCurrentModelType_def)
  have "attemptInOrder ''ua'' ''sk-1'' (resolutionOrder All) ?w
      = (None, ?w\<lparr>trace := trace ?w @ concat (map (attemptEvents ''ua'' ''sk-1'') (resolutionOrder All))\<rparr>)"
    by (rule attemptInOrder_steady_failure [where e = ?e]) (rule down_checkResponse [OF n bad])
  then have h: "fst (attemptInOrder ''ua'' ''sk-1'' (resolutionOrder (getCurrentModelType ?w)) ?w) = None"
    by (simp only: p fst_conv)
  have first: "fetchModelsFromEndpoint ''sk-1'' (ENDPOINT_CONFIGS All) ''ua'' ?w
      = (Inl (?e All), ?w\<lparr>trace := trace ?w @ attemptEvents ''ua'' ''sk-1'' All\<rparr>)"
    unfolding attemptEvents_def
    by (rule fetchModelsFromEndpoint_steady_failure) (rule down_checkResponse [OF n bad])
  from all_fail_error [OF h] obtain error where
    e: "fst (fetchModelsFromEndpoint ''sk-1'' (ENDPOINT_CONFIGS (getCurrentModelType ?w)) ''ua'' ?w) = Inl error"
    and r: "fst (fetchModels ''ua'' ''sk-1'' ?w)
       = Inl (AllEndpointsFailed (displayName (ENDPOINT_CONFIGS (getCurrentModelType ?w))) (errorMessage error))"
    by blast
  from e have "error = HttpStatusError 500 ''Internal Server Error'' ''''"
    unfolding p first by simp
  with r have "fst (fetchModels ''ua'' ''sk-1'' ?w)
     = Inl (AllEndpointsFailed ''All Models'' ''HTTP 500: Internal Server Error - '')"
    by (simp add: p show_nat_500)
  with h show ?thesis by (rule conjI)
qed

text \<open>
  The claim as first stated fails: the error carries no list of the later
  failures. In two worlds whose premium and subscription endpoints fail
  differently (502 in one, 503 in the other) the errors raised are equal.
\<close>

theorem fallback_failures_not_carried_counterexample:
  "fst (fetchModels ''ua'' ''sk-1'' (keyedWorld (down 502)))
     = Inl (AllEndpointsFailed ''All Models'' ''HTTP 500: Internal Server Error - '')
   \<and> fst (fetchModels ''ua'' ''sk-1'' (keyedWorld (down 503)))
     = Inl (AllEndpointsFailed ''All Models'' ''HTTP 500: Internal Server Error - '')
   \<and> fst (fetchModelsFromEndpoint ''sk-1'' (ENDPOINT_CONFIGS Premium) ''ua''
        (snd (fetchModelsFromEndpoint ''sk-1'' (ENDPOINT_CONFIGS All) ''ua'' (keyedWorld (down 502)))))
     = Inl (HttpStatusError 502 ''Unavailable'' '''')
   \<and> fst (fetchModelsFromEndpoint ''sk-1'' (ENDPOINT_CONFIGS Premium) ''ua''
        (snd (fetchModelsFromEndpoint ''sk-1'' (ENDPOINT_CONFIGS All) ''ua'' (keyedWorld (down 503)))))
     = Inl (HttpStatusError 503 ''Unavailable'' '''')"
proof -
  have premium: "fst (fetchModelsFromEndpoint ''sk-1'' (ENDPOINT_CONFIGS Premium) ''ua''
        (snd (fetchModelsFromEndpoint ''sk-1'' (ENDPOINT_CONFIGS All) ''ua'' (keyedWorld (down status)))))
     = Inl (HttpStatusError status ''Unavailable'' '''')" if bad: "\<not> response_ok status" for status
  proof -
    let ?w = "keyedWorld (down status)"
    let ?w1 = "?w\<lparr>trace := trace ?w @ attemptEvents ''ua'' ''sk-1'' All\<rparr>"
    have n: "network ?w = down status" by (simp add: keyedWorld_def)
    have n1: "network ?w1 = down status" by (simp add: n)
    have first: "fetchModelsFromEndpoint ''sk-1'' (ENDPOINT_CONFIGS All) ''ua'' ?w
        = (Inl (if All = All then HttpStatusError 500 ''Internal Server Error'' ''''
                else HttpStatusError status ''Unavailable'' ''''), ?w1)"
      unfolding attemptEvents_def
      by (rule fetchModelsFromEndpoint_steady_failure) (rule down_checkResponse [OF n bad])
    have second: "fetchModelsFromEndpoint ''sk-1'' (ENDPOINT_CONFIGS Premium) ''ua'' ?w1
        = (Inl (if Premium = All then HttpStatusError 500 ''Internal Server Error'' ''''
                else HttpStatusError status ''Unavailable'' ''''),
           ?w1\<lparr>trace := trace ?w1 @ attemptEvents ''ua'' ''sk-1'' Premium\<rparr>)"
      unfolding attemptEvents_def
      by (rule fetchModelsFromEndpoint_steady_failure) (rule down_checkResponse [OF _ bad], simp add: n)
    show ?thesis unfolding first snd_conv second fst_conv by simp
  qed
  have "\<not> response_ok 502" and "\<not> response_ok 503" by simp_all
  then show ?thesis
    by (simp only: down_fetchModels premium fst_conv simp_thms)
qed

section \<open>Normalization of the fetched entries\<close>

text \<open>
  Claim C5, as amended. The loop over the entries of a validated fetch result never
  raises: the body of its \<^verbatim>\<open>try\<close> throws on no entry, so the \<^verbatim>\<open>catch\<close> clause with
  its minimal descriptor is not reached. Every entry whose id is not the empty string yields exactly one
  descriptor, in the order of the input: the descriptor that the body of the
  \<^verbatim>\<open>try\<close> builds, with the defaults filled in. An entry whose id is the empty
  string is skipped. So the ids returned are the non-empty ids of the input, and
  the number of descriptors is the number of entries with a non-empty id. This
  holds for the loop of both copies of the service.
\<close>

theorem normalization_keeps_entries_with_id:
  "map (\<lambda>i. Inr (Some i)) (processModels ms []) = map modelInfo (filter (\<lambda>m. id_m m \<noteq> []) ms)
   \<and> map id_i (processModels ms []) = filter (\<lambda>i. i \<noteq> []) (map id_m ms)
   \<and> length (processModels ms []) = length (filter (\<lambda>m. id_m m \<noteq> []) ms)
   \<and> map (\<lambda>i. Inr (Some i)) (processModels1 ns []) = map modelInfo1 (filter (\<lambda>m. id_m m \<noteq> []) ns)
   \<and> map id_i (processModels1 ns []) = filter (\<lambda>i. i \<noteq> []) (map id_m ns)
   \<and> length (processModels1 ns []) = length (filter (\<lambda>m. id_m m \<noteq> []) ns)
   \<and> \<not> isl (modelInfo m) \<and> \<not> isl (modelInfo1 n)"
proof -
  have a: "map (\<lambda>i. Inr (Some i)) (processModels ms []) = map modelInfo (filter (\<lambda>m. id_m m \<noteq> []) ms)"
    using processModels_acc [of ms "[]"] by simp
  have b: "map (\<lambda>i. Inr (Some i)) (processModels1 ns []) = map modelInfo1 (filter (\<lambda>m. id_m m \<noteq> []) ns)"
    using processModels1_acc [of ns "[]"] by simp
  have la: "length (processModels ms []) = length (filter (\<lambda>m. id_m m \<noteq> []) ms)"
    using arg_cong [OF a, of length] by simp
  have lb: "length (processModels1 ns []) = length (filter (\<lambda>m. id_m m \<noteq> []) ns)"
    using arg_cong [OF b, of length] by simp
  show ?thesis
    using a b la lb processModels_ids [of ms "[]"] processModels1_ids [of ns "[]"]
      modelInfo_never_throws [of m] modelInfo1_never_throws [of n]
    by simp
qed

theorem normalization_keeps_entries_with_id_witness:
  "map id_i (processModels [categorize (ENDPOINT_CONFIGS Premium) (entry ''''),
                            categorize (ENDPOINT_CONFIGS Premium) (entry ''gpt-4o''),
                            categorize (ENDPOINT_CONFIGS Premium) (entry ''o3'')] [])
     = [''gpt-4o'', ''o3'']
   \<and> map id_i (processModels1 [entry ''gpt-4o'', entry '''', entry ''o3''] []) = [''gpt-4o'', ''o3'']"
  using normalization_keeps_entries_with_id
    [of "[categorize (ENDPOINT_CONFIGS Premium) (entry ''''),
          categorize (ENDPOINT_CONFIGS Premium) (entry ''gpt-4o''),
          categorize (ENDPOINT_CONFIGS Premium) (entry ''o3'')]"
        "[entry ''gpt-4o'', entry '''', entry ''o3'']"]
  by simp

text \<open>
  The claim as first stated fails: the schema accepts an empty string as an id, and
  the loop skips such an entry. A validated result of two entries yields one
  descriptor.
\<close>

theorem empty_id_dropped_counterexample:
  "fst (fetchModels ''ua'' ''sk-1'' (keyedWorld twoEntries))
     = Inr \<lparr>models = [categorize (ENDPOINT_CONFIGS All) (entry ''''),
                       categorize (ENDPOINT_CONFIGS All) (entry ''gpt-4o'')],
            endpoint_r = url (ENDPOINT_CONFIGS All)\<rparr>
   \<and> map id_i (fst (prepareLanguageModelChatInformation ''ua'' True cancelled (keyedWorld twoEntries)))
     = [''gpt-4o'']
   \<and> length (fst (prepareLanguageModelChatInformation ''ua'' True cancelled (keyedWorld twoEntries))) = 1
   \<and> map id_i (processModels1 [entry '''', entry ''gpt-4o''] []) = [''gpt-4o'']"
proof -
  have p: "prepareLanguageModelChatInformation ''ua'' True cancelled (keyedWorld twoEntries)
      = (processModels [categorize (ENDPOINT_CONFIGS All) (entry ''''),
                        categorize (ENDPOINT_CONFIGS All) (entry ''gpt-4o'')] [],
         emit (Fetch (endpointRequest ''sk-1'' (ENDPOINT_CONFIGS All) ''ua'')) (keyedWorld twoEntries))"
    by (simp add: prepare_stored [where k = "''sk-1''"] twoEntries_fetchModels)
  have ids: "map id_i (processModels [categorize (ENDPOINT_CONFIGS All) (entry ''''),
                        categorize (ENDPOINT_CONFIGS All) (entry ''gpt-4o'')] []) = [''gpt-4o'']"
    by (subst processModels_ids) simp
  have len: "length (processModels [categorize (ENDPOINT_CONFIGS All) (entry ''''),
                        categorize (ENDPOINT_CONFIGS All) (entry ''gpt-4o'')] []) = 1"
    using arg_cong [OF ids, of length] by simp
  have ids1: "map id_i (processModels1 [entry '''', entry ''gpt-4o''] []) = [''gpt-4o'']"
    by (subst processModels1_ids) simp
  show ?thesis
    unfolding p twoEntries_fetchModels fst_conv using ids len ids1 by simp
qed

section \<open>Cancellation\<close>

text \<open>
  Claim C4, as amended. \<^verbatim>\<open>prepareLanguageModelChatInformation\<close> never reads its
  cancellation token: a call with any token, an already cancelled one included,
  returns what the same call with a token that is not cancelled returns and
  leaves the same world (the same requests, timers and messages). In particular a
  call with a cancelled token and a stored key issues at least one network
  request.
\<close>

theorem cancellation_token_ignored:
  "prepareLanguageModelChatInformation ua silent token w
     = prepareLanguageModelChatInformation ua silent \<lparr>isCancellationRequested = False\<rparr> w
   \<and> (secrets w ''nanogpt.apiKey'' = Some k \<and> k \<noteq> [] \<and> isCancellationRequested token
      \<longrightarrow> length (requests w)
          < length (requests (snd (prepareLanguageModelChatInformation ua silent token w))))"
proof (intro conjI impI)
  show "prepareLanguageModelChatInformation ua silent token w
     = prepareLanguageModelChatInformation ua silent \<lparr>isCancellationRequested = False\<rparr> w"
    by (simp add: prepareLanguageModelChatInformation_def)
next
  assume h: "secrets w ''nanogpt.apiKey'' = Some k \<and> k \<noteq> [] \<and> isCancellationRequested token"
  obtain r w2 where f: "fetchModels ua k w = (r, w2)"
    by (cases "fetchModels ua k w")
  have "length (requests w) < length (requests w2)"
    using fetchModels_requests [of w ua k] f by simp
  with h f show "length (requests w)
      < length (requests (snd (prepareLanguageModelChatInformation ua silent token w)))"
    by (cases r) (simp_all add: prepare_stored [where k = k])
qed

theorem cancellation_token_ignored_witness:
  "prepareLanguageModelChatInformation ''ua'' False cancelled (keyedWorld onlyAll)
   = prepareLanguageModelChatInformation ''ua'' False \<lparr>isCancellationRequested = False\<rparr> (keyedWorld onlyAll)
   \<and> map id_i (fst (prepareLanguageModelChatInformation ''ua'' False
        \<lparr>isCancellationRequested = False\<rparr> (keyedWorld onlyAll))) = [''gpt-4o'']
   \<and> length (requests (keyedWorld onlyAll))
     < length (requests (snd (prepareLanguageModelChatInformation ''ua'' False cancelled
         (keyedWorld onlyAll))))"
proof -
  have ids: "map id_i (processModels [categorize (ENDPOINT_CONFIGS All) (entry ''gpt-4o'')] []) = [''gpt-4o'']"
    by (subst processModels_ids) simp
  note inst = cancellation_token_ignored [of "''ua''" False cancelled "keyedWorld onlyAll" "''sk-1''"]
  note same = inst [THEN conjunct1]
  have "map id_i (fst (prepareLanguageModelChatInformation ''ua'' False
        \<lparr>isCancellationRequested = False\<rparr> (keyedWorld onlyAll))) = [''gpt-4o'']"
    unfolding same [symmetric] onlyAll_prepare fst_conv by (rule ids)
  moreover have "length (requests (keyedWorld onlyAll))
     < length (requests (snd (prepareLanguageModelChatInformation ''ua'' False cancelled
         (keyedWorld onlyAll))))"
    using inst [THEN conjunct2] by (simp add: cancelled_def)
  ultimately show ?thesis using same by simp
qed

text \<open>
  The claim as first stated fails: with a cancelled token and a stored key the call
  fetches and returns the catalog after one request; and when every endpoint is
  down it issues nine requests and shows two messages.
\<close>

theorem cancelled_call_runs_counterexample:
  "isCancellationRequested cancelled
   \<and> map id_i (fst (prepareLanguageModelChatInformation ''ua'' False cancelled (keyedWorld onlyAll)))
     = [''gpt-4o'']
   \<and> requests (snd (prepareLanguageModelChatInformation ''ua'' False cancelled (keyedWorld onlyAll)))
     = [endpointRequest ''sk-1'' (ENDPOINT_CONFIGS All) ''ua'']
   \<and> length (requests (snd (prepareLanguageModelChatInformation ''ua'' False cancelled
        (keyedWorld (down 503))))) = 9
   \<and> length (messages (snd (prepareLanguageModelChatInformation ''ua'' False cancelled
        (keyedWorld (down 503))))) = 2"
proof -
  have ids: "map id_i (processModels [categorize (ENDPOINT_CONFIGS All) (entry ''gpt-4o'')] []) = [''gpt-4o'']"
    by (subst processModels_ids) simp
  have r: "requests (emit (Fetch (endpointRequest ''sk-1'' (ENDPOINT_CONFIGS All) ''ua'')) (keyedWorld onlyAll))
      = [endpointRequest ''sk-1'' (ENDPOINT_CONFIGS All) ''ua'']"
    by (simp add: requests_def)
  show ?thesis
    unfolding onlyAll_prepare down_prepare fst_conv snd_conv ids r
    by (simp add: cancelled_def requests_def messages_def attemptEvents_def)
qed

section \<open>Errors of the fetch\<close>

text \<open>
  Claim C8. Whatever error the fetch of the models raises,
  \<^verbatim>\<open>prepareLanguageModelChatInformation\<close> does not reject: it resolves to the empty
  list, after one information message when the call is not silent. This holds
  for the service with the fallback endpoints, whose \<^verbatim>\<open>fetchModels\<close> raises the
  error of all endpoints having failed, and for the service with one endpoint,
  whose \<^verbatim>\<open>fetchModels\<close> raises the transport, status, validation and empty
  catalog errors themselves.
\<close>

theorem prepare_catches_fetch_errors:
  assumes "ensureApiKey silent w = (Some apiKey, w1)" and "apiKey \<noteq> []"
  shows "(fetchModels ua apiKey w1 = (Inl error, w2) \<longrightarrow>
            prepareLanguageModelChatInformation ua silent token w
            = ([], if silent then w2
                   else emit (InformationMessage (''Unable to load NanoGPT models: ''
                          @ errorMessage error @ ''. Please check your API key and try again.'')) w2))
       \<and> (fetchModels1 ua apiKey w1 = (Inl error1, w3) \<longrightarrow>
            prepareLanguageModelChatInformation1 ua silent token w
            = ([], if silent then w3
                   else emit (InformationMessage (''Unable to load NanoGPT models: ''
                          @ errorMessage1 error1 @ ''. Please check your API key and try again.'')) w3))"
  using assms
  by (simp add: prepareLanguageModelChatInformation_def prepareLanguageModelChatInformation1_def)

theorem prepare_catches_fetch_errors_witness:
  "ensureApiKey True (keyedWorld (down 503)) = (Some ''sk-1'', keyedWorld (down 503))
   \<and> fst (fetchModels ''ua'' ''sk-1'' (keyedWorld (down 503)))
     = Inl (AllEndpointsFailed ''All Models'' ''HTTP 500: Internal Server Error - '')
   \<and> fst (prepareLanguageModelChatInformation ''ua'' True cancelled (keyedWorld (down 503))) = []
   \<and> fst (fetchModels1 ''ua'' ''sk-1'' (keyedWorld (down 503)))
     = Inl (HttpStatusError 500 ''Internal Server Error'' '''')
   \<and> fst (prepareLanguageModelChatInformation1 ''ua'' True cancelled (keyedWorld (down 503))) = []"
proof -
  let ?w = "keyedWorld (down 503)"
  have bad: "\<not> response_ok 503" by simp
  have key: "ensureApiKey True ?w = (Some ''sk-1'', ?w)"
    by (rule ensureApiKey_stored) simp_all
  have ne: "''sk-1'' \<noteq> []" by simp
  note inst = prepare_catches_fetch_errors [OF key ne, of "''ua''" _ _ cancelled]
  have a: "fst (prepareLanguageModelChatInformation ''ua'' True cancelled ?w) = []"
    using inst [THEN conjunct1, rule_format, OF down_fetchModels [OF bad]] by simp
  have b: "fst (prepareLanguageModelChatInformation1 ''ua'' True cancelled ?w) = []"
    using inst [THEN conjunct2, rule_format, OF down_fetchModels1] by simp
  show ?thesis
    unfolding key down_fetchModels [OF bad] down_fetchModels1 fst_conv a b by simp
qed

section \<open>The API key\<close>

text \<open>
  Claim C10. \<^verbatim>\<open>ensureApiKey\<close> called with \<^verbatim>\<open>silent = true\<close> shows no prompt and
  writes nothing to the secret storage: it returns what the storage holds under
  \<^verbatim>\<open>nanogpt.apiKey\<close> (the key, or \<^verbatim>\<open>undefined\<close> when there is none) and leaves
  the world, its secret storage and its trace of effects as they were.
\<close>

theorem ensureApiKey_silent:
  "fst (ensureApiKey True w) = secrets w ''nanogpt.apiKey''
   \<and> snd (ensureApiKey True w) = w
   \<and> secrets (snd (ensureApiKey True w)) = secrets w
   \<and> trace (snd (ensureApiKey True w)) = trace w"
  by (simp add: ensureApiKey_def)

theorem ensureApiKey_silent_witness:
  "ensureApiKey True (keyedWorld flaky) = (Some ''sk-1'', keyedWorld flaky)
   \<and> ensureApiKey True (keylessWorld flaky) = (None, keylessWorld flaky)"
proof -
  have a: "secrets (keyedWorld flaky) ''nanogpt.apiKey'' = Some ''sk-1''"
    and b: "secrets (keylessWorld flaky) ''nanogpt.apiKey'' = None"
    by (simp_all add: keylessWorld_def)
  show ?thesis
    using ensureApiKey_silent [of "keyedWorld flaky"] ensureApiKey_silent [of "keylessWorld flaky"] a b
    by (simp add: prod_eq_iff)
qed

text \<open>
  Claim C9. With no API key in the secret storage and a silent call,
  \<^verbatim>\<open>prepareLanguageModelChatInformation\<close> resolves to the empty list and issues no
  network request: the world it leaves is the world it found.
\<close>

theorem prepare_silent_without_key:
  assumes "secrets w ''nanogpt.apiKey'' = None"
  shows "prepareLanguageModelChatInformation ua True token w = ([], w)
         \<and> requests (snd (prepareLanguageModelChatInformation ua True token w)) = requests w"
  using assms by (simp add: prepareLanguageModelChatInformation_def ensureApiKey_def)

theorem prepare_silent_without_key_witness:
  "secrets (keylessWorld flaky) ''nanogpt.apiKey'' = None
   \<and> prepareLanguageModelChatInformation ''ua'' True \<lparr>isCancellationRequested = False\<rparr>
        (keylessWorld flaky) = ([], keylessWorld flaky)
   \<and> requests (snd (prepareLanguageModelChatInformation ''ua'' True
        \<lparr>isCancellationRequested = False\<rparr> (keylessWorld flaky))) = []"
proof -
  have h: "secrets (keylessWorld flaky) ''nanogpt.apiKey'' = None"
    by (simp add: keylessWorld_def)
  have r: "requests (keylessWorld flaky) = []"
    by (simp add: keylessWorld_def requests_def)
  show ?thesis
    using h r prepare_silent_without_key [OF h, of "''ua''" "\<lparr>isCancellationRequested = False\<rparr>"]
    by simp
qed

section \<open>The suffix of a composed request\<close>

text \<open>
  Claim C7. For every base id, with search enabled in standard mode and memory
  enabled with a valid number of days, \<open>compose\<close> appends the search marker first
  and the memory marker second: the suffix is the base id followed by
  \<^verbatim>\<open>:online\<close> and then \<^verbatim>\<open>:memory\<close> when the days are the platform default of 30,
  \<^verbatim>\<open>:memory-{days}\<close> otherwise.
\<close>

theorem compose_suffix_order:
  assumes "search_enabled (applyOverride t ov)"
    and "search_mode (applyOverride t ov) = Standard"
    and "memory_enabled (applyOverride t ov)"
    and "1 \<le> memory_days (applyOverride t ov)"
    and "memory_days (applyOverride t ov) \<le> 365"
  shows "\<exists>c. compose base t ov = Inr c
     \<and> suffix c = base @ '':online''
         @ (if memory_days (applyOverride t ov) = PLATFORM_DEFAULT_DAYS then '':memory''
            else '':memory-'' @ show_nat (nat (memory_days (applyOverride t ov))))"
  using assms by (simp add: compose_def Let_def searchMarker_def memoryMarker_def)

theorem compose_suffix_order_witness:
  "(\<exists>c. compose ''gpt-4o'' (toggles 30) noOverride = Inr c \<and> suffix c = ''gpt-4o:online:memory'')
   \<and> (\<exists>c. compose ''gpt-4o'' (toggles 90) noOverride = Inr c \<and> suffix c = ''gpt-4o:online:memory-90'')"
proof -
  have a: "applyOverride (toggles d) noOverride = toggles d" for d
    by (simp add: applyOverride_def noOverride_def orElse_def toggles_def)
  have f: "search_enabled (toggles d)" "search_mode (toggles d) = Standard"
    "memory_enabled (toggles d)" "memory_days (toggles d) = d" for d
    by (simp_all add: toggles_def)
  from compose_suffix_order [of "toggles 30" noOverride "''gpt-4o''"]
  have 30: "\<exists>c. compose ''gpt-4o'' (toggles 30) noOverride = Inr c \<and> suffix c = ''gpt-4o:online:memory''"
    by (simp add: a f PLATFORM_DEFAULT_DAYS_def)
  from compose_suffix_order [of "toggles 90" noOverride "''gpt-4o''"]
  have 90: "\<exists>c. compose ''gpt-4o'' (toggles 90) noOverride = Inr c \<and> suffix c = ''gpt-4o:online:memory-90''"
    by (simp add: a f PLATFORM_DEFAULT_DAYS_def show_nat_90)
  from 30 90 show ?thesis by (rule conjI)
qed

end
